theory Spec2Isabelle
  imports Complex_Main "HOL-Library.AList"
begin

text \<open>
  A shallow embedding of two modules of armory: the metrics of
  \<open>armory/utils/metrics.py\<close> (metric functions, \<open>MetricList\<close>, \<open>MetricsLogger\<close> and
  the profiling region \<open>resource_context\<close>) and the poisoning of the GTSRB scenario in
  \<open>armory/scenarios/poisoning_gtsrb_scenario.py\<close> (\<open>poison_dataset\<close> and the parts of
  \<open>GTSRB._evaluate\<close> that select the indices to poison and score the classifier).
  Model, training, defense, attack and data loading are external: they enter as
  parameters. Logging is left out.
\<close>

section \<open>Python values, exceptions and floats\<close>

text \<open>
  Exceptions of the Python source are values. Each constructor is a Python exception
  class; the string is the fixed part of the message at the raise site.
  \<open>Unmodelled\<close> marks a run whose outcome depends on numpy behaviour that lies outside
  this development (broadcasting of unequal shapes, the text of a formatted float):
  it is neither a result nor an exception of the program.
\<close>

datatype error =
    ValueError string
  | KeyError string
  | TypeError string
  | IndexError string
  | ZeroDivisionError string
  | OverflowError string
  | Unmodelled string

text \<open>
  A float is a real number or one of the three special values. The sign of zero is not
  modelled. The operations \<open>fl_add\<close>, \<open>fl_mul\<close> and \<open>np_div\<close> are exact on finite
  values; the rounding of float64 is \<open>double_round\<close> below, and the operations
  \<open>double_add\<close>, \<open>double_sub\<close>, \<open>double_mul\<close> and \<open>double_div\<close> round their result.
\<close>

datatype pyfloat = Fin real | PosInf | NegInf | NaN

fun fl_add :: "pyfloat \<Rightarrow> pyfloat \<Rightarrow> pyfloat" where
  "fl_add (Fin a) (Fin b) = Fin (a + b)"
| "fl_add NaN _ = NaN"
| "fl_add _ NaN = NaN"
| "fl_add PosInf NegInf = NaN"
| "fl_add NegInf PosInf = NaN"
| "fl_add PosInf _ = PosInf"
| "fl_add _ PosInf = PosInf"
| "fl_add NegInf _ = NegInf"
| "fl_add _ NegInf = NegInf"

fun fl_neg :: "pyfloat \<Rightarrow> pyfloat" where
  "fl_neg (Fin a) = Fin (- a)"
| "fl_neg PosInf = NegInf"
| "fl_neg NegInf = PosInf"
| "fl_neg NaN = NaN"

fun fl_mul :: "pyfloat \<Rightarrow> pyfloat \<Rightarrow> pyfloat" where
  "fl_mul (Fin a) (Fin b) = Fin (a * b)"
| "fl_mul NaN _ = NaN"
| "fl_mul _ NaN = NaN"
| "fl_mul (Fin a) b = (if a = 0 then NaN else if 0 < a then b else fl_neg b)"
| "fl_mul a (Fin b) = (if b = 0 then NaN else if 0 < b then a else fl_neg a)"
| "fl_mul PosInf b = b"
| "fl_mul NegInf b = fl_neg b"

text \<open>
  Division of numpy floats: a zero divisor gives an infinity or NaN (with a warning),
  never an exception.
\<close>

fun np_div :: "pyfloat \<Rightarrow> pyfloat \<Rightarrow> pyfloat" where
  "np_div (Fin a) (Fin b) =
     (if b \<noteq> 0 then Fin (a / b)
      else if 0 < a then PosInf else if a < 0 then NegInf else NaN)"
| "np_div NaN _ = NaN"
| "np_div _ NaN = NaN"
| "np_div (Fin a) _ = Fin 0"
| "np_div PosInf (Fin b) = (if 0 \<le> b then PosInf else NegInf)"
| "np_div NegInf (Fin b) = (if 0 \<le> b then NegInf else PosInf)"
| "np_div _ _ = NaN"

fun np_log10 :: "pyfloat \<Rightarrow> pyfloat" where
  "np_log10 (Fin a) = (if 0 < a then Fin (log 10 a) else if a = 0 then NegInf else NaN)"
| "np_log10 PosInf = PosInf"
| "np_log10 NegInf = NaN"
| "np_log10 NaN = NaN"

text \<open>
  Rounding to float64 (IEEE 754 binary64, round to nearest, ties to even). A double
  is a multiple of the unit in its last place: \<open>2\<close> to the power \<open>e - 52\<close> when its
  magnitude lies between \<open>2\<close> to the power \<open>e\<close> and the next power, and \<open>2\<close> to the
  power \<open>- 1074\<close> below the normal range. A result of magnitude \<open>2\<close> to the power
  \<open>1024\<close> or more after rounding is an infinity.
\<close>

definition binade :: "real \<Rightarrow> int" where
  "binade x = max \<lfloor>log 2 \<bar>x\<bar>\<rfloor> (- 1022)"

definition ulp :: "real \<Rightarrow> real" where
  "ulp x = 2 powr real_of_int (binade x - 52)"

definition round_even :: "real \<Rightarrow> int" where
  "round_even q =
     (let r = \<lfloor>q\<rfloor>
      in if q - real_of_int r < 1 / 2 then r
         else if 1 / 2 < q - real_of_int r then r + 1
         else if even r then r else r + 1)"

definition overflow_threshold :: real where
  "overflow_threshold = 2 ^ 1024"

definition double_round :: "real \<Rightarrow> pyfloat" where
  "double_round x =
     (if x = 0 then Fin 0
      else let y = real_of_int (round_even (x / ulp x)) * ulp x
           in if overflow_threshold \<le> \<bar>y\<bar> then (if 0 < x then PosInf else NegInf) else Fin y)"

fun fl_round :: "pyfloat \<Rightarrow> pyfloat" where
  "fl_round (Fin a) = double_round a"
| "fl_round a = a"

text \<open>The float64 operations \<open>a + b\<close>, \<open>a - b\<close>, \<open>a * b\<close>, \<open>a / b\<close> of numpy and \<open>abs\<close>.\<close>

definition double_add :: "pyfloat \<Rightarrow> pyfloat \<Rightarrow> pyfloat" where
  "double_add a b = fl_round (fl_add a b)"

definition double_sub :: "pyfloat \<Rightarrow> pyfloat \<Rightarrow> pyfloat" where
  "double_sub a b = fl_round (fl_add a (fl_neg b))"

definition double_mul :: "pyfloat \<Rightarrow> pyfloat \<Rightarrow> pyfloat" where
  "double_mul a b = fl_round (fl_mul a b)"

definition double_div :: "pyfloat \<Rightarrow> pyfloat \<Rightarrow> pyfloat" where
  "double_div a b = fl_round (np_div a b)"

fun fl_abs :: "pyfloat \<Rightarrow> pyfloat" where
  "fl_abs (Fin a) = Fin \<bar>a\<bar>"
| "fl_abs NaN = NaN"
| "fl_abs _ = PosInf"

text \<open>Division of Python numbers: a zero divisor raises.\<close>

definition py_truediv :: "pyfloat \<Rightarrow> pyfloat \<Rightarrow> error + pyfloat" where
  "py_truediv a b =
     (if b = Fin 0 then Inl (ZeroDivisionError ''division by zero'') else Inr (np_div a b))"

text \<open>The Python values that metric lists, the resource ledger and result mappings hold.\<close>

datatype pyval =
    PyInt int
  | PyFloat pyfloat
  | PyStr string
  | PyList "pyval list"

text \<open>\<open>float(x)\<close>. Whether a string converts depends on what it spells.\<close>

fun py_float :: "pyval \<Rightarrow> error + pyfloat" where
  "py_float (PyInt i) = Inr (Fin (of_int i))"
| "py_float (PyFloat f) = Inr f"
| "py_float (PyStr s) = Inl (Unmodelled ''float of a string'')"
| "py_float (PyList vs) = Inl (TypeError ''float() argument must be a string or a number'')"

text \<open>\<open>a + b\<close>, also the right-hand side of \<open>a += b\<close>.\<close>

fun py_add :: "pyval \<Rightarrow> pyval \<Rightarrow> error + pyval" where
  "py_add (PyInt a) (PyInt b) = Inr (PyInt (a + b))"
| "py_add (PyInt a) (PyFloat b) = Inr (PyFloat (fl_add (Fin (of_int a)) b))"
| "py_add (PyFloat a) (PyInt b) = Inr (PyFloat (fl_add a (Fin (of_int b))))"
| "py_add (PyFloat a) (PyFloat b) = Inr (PyFloat (fl_add a b))"
| "py_add (PyStr a) (PyStr b) = Inr (PyStr (a @ b))"
| "py_add (PyList a) (PyList b) = Inr (PyList (a @ b))"
| "py_add _ _ = Inl (TypeError ''unsupported operand type(s) for +'')"

text \<open>\<open>a / b\<close> on Python values.\<close>

fun py_div :: "pyval \<Rightarrow> pyval \<Rightarrow> error + pyval" where
  "py_div (PyInt a) (PyInt b) = map_sum id PyFloat (py_truediv (Fin (of_int a)) (Fin (of_int b)))"
| "py_div (PyInt a) (PyFloat b) = map_sum id PyFloat (py_truediv (Fin (of_int a)) b)"
| "py_div (PyFloat a) (PyInt b) = map_sum id PyFloat (py_truediv a (Fin (of_int b)))"
| "py_div (PyFloat a) (PyFloat b) = map_sum id PyFloat (py_truediv a b)"
| "py_div _ _ = Inl (TypeError ''unsupported operand type(s) for /'')"

text \<open>Sequencing of computations that may raise: the first exception wins.\<close>

definition bind :: "error + 'a \<Rightarrow> ('a \<Rightarrow> error + 'b) \<Rightarrow> error + 'b" where
  "bind m f = (case m of Inl e \<Rightarrow> Inl e | Inr x \<Rightarrow> f x)"

fun traverse :: "('a \<Rightarrow> error + 'b) \<Rightarrow> 'a list \<Rightarrow> error + 'b list" where
  "traverse f [] = Inr []"
| "traverse f (x # xs) =
     (case f x of Inl e \<Rightarrow> Inl e
      | Inr y \<Rightarrow> (case traverse f xs of Inl e \<Rightarrow> Inl e | Inr ys \<Rightarrow> Inr (y # ys)))"

text \<open>\<open>str(n)\<close> for an integer, as an f-string prints it.\<close>

fun str_nat :: "nat \<Rightarrow> string" where
  "str_nat n =
     (if n < 10 then [char_of (48 + n)]
      else str_nat (n div 10) @ [char_of (48 + n mod 10)])"

declare str_nat.simps [simp del]

definition str_int :: "int \<Rightarrow> string" where
  "str_int i = (if i < 0 then CHR ''-'' # str_nat (nat (- i)) else str_nat (nat i))"

fun py_format :: "pyval \<Rightarrow> error + string" where
  "py_format (PyInt i) = Inr (str_int i)"
| "py_format (PyStr s) = Inr s"
| "py_format (PyFloat f) = Inl (Unmodelled ''repr of a float'')"
| "py_format (PyList vs) = Inl (Unmodelled ''repr of a list'')"

section \<open>numpy arrays\<close>

text \<open>
  An array is its shape and its entries in row-major order. Entries are finite numbers.
  The arrays of the program satisfy \<open>wf_ndarray\<close>.
\<close>

record 'a ndarray =
  shape :: "nat list"
  data :: "'a list"

definition wf_ndarray :: "'a ndarray \<Rightarrow> bool" where
  "wf_ndarray a = (length (data a) = prod_list (shape a))"

definition ndim :: "'a ndarray \<Rightarrow> nat" where
  "ndim a = length (shape a)"

text \<open>\<open>np.asarray\<close> of a flat Python list.\<close>

definition vec :: "'a list \<Rightarrow> 'a ndarray" where
  "vec xs = \<lparr>shape = [length xs], data = xs\<rparr>"

text \<open>\<open>np.array([a])\<close>: a new leading axis of length one.\<close>

definition expand :: "'a ndarray \<Rightarrow> 'a ndarray" where
  "expand a = \<lparr>shape = 1 # shape a, data = data a\<rparr>"

text \<open>\<open>len(a)\<close>.\<close>

definition len :: "'a ndarray \<Rightarrow> error + nat" where
  "len a = (case shape a of [] \<Rightarrow> Inl (TypeError ''len() of unsized object'') | n # s \<Rightarrow> Inr n)"

fun chunks :: "nat \<Rightarrow> nat \<Rightarrow> 'a list \<Rightarrow> 'a list list" where
  "chunks 0 d xs = []"
| "chunks (Suc n) d xs = take d xs # chunks n d (drop d xs)"

text \<open>Iteration over an array: its sub-arrays along the first axis.\<close>

definition rows :: "'a ndarray \<Rightarrow> error + 'a ndarray list" where
  "rows a =
     (case shape a of
        [] \<Rightarrow> Inl (TypeError ''iteration over a 0-d array'')
      | n # s \<Rightarrow> Inr (map (\<lambda>c. \<lparr>shape = s, data = c\<rparr>) (chunks n (prod_list s) (data a))))"

text \<open>
  Two shapes are compatible for an elementwise operation when, aligned at their last
  axes, each pair of lengths is equal or contains a one.
\<close>

fun broadcastable_rev :: "nat list \<Rightarrow> nat list \<Rightarrow> bool" where
  "broadcastable_rev (m # ms) (n # ns) = ((m = n \<or> m = 1 \<or> n = 1) \<and> broadcastable_rev ms ns)"
| "broadcastable_rev _ _ = True"

definition broadcastable :: "nat list \<Rightarrow> nat list \<Rightarrow> bool" where
  "broadcastable s t = broadcastable_rev (rev s) (rev t)"

text \<open>
  \<open>a == b\<close> on arrays. Elementwise on equal shapes. On unequal shapes numpy broadcasts
  or, depending on its version, answers a single \<open>False\<close> or raises.
\<close>

definition np_eq :: "real ndarray \<Rightarrow> real ndarray \<Rightarrow> error + bool ndarray" where
  "np_eq a b =
     (if shape a = shape b
      then Inr \<lparr>shape = shape a, data = map2 (\<lambda>u v. u = v) (data a) (data b)\<rparr>
      else Inl (Unmodelled ''comparison of arrays of unequal shape''))"

text \<open>\<open>a - b\<close> on float arrays.\<close>

definition np_sub :: "real ndarray \<Rightarrow> real ndarray \<Rightarrow> error + real ndarray" where
  "np_sub a b =
     (if shape a = shape b
      then Inr \<lparr>shape = shape a, data = map2 (\<lambda>u v. u - v) (data a) (data b)\<rparr>
      else if broadcastable (shape a) (shape b)
      then Inl (Unmodelled ''broadcast of unequal shapes'')
      else Inl (ValueError ''operands could not be broadcast together''))"

text \<open>
  \<open>[int(x) for x in list(a)]\<close>: \<open>int\<close> accepts an array of exactly one entry.
\<close>

definition int_of_entry :: "bool ndarray \<Rightarrow> error + pyval" where
  "int_of_entry r =
     (case data r of
        [b] \<Rightarrow> Inr (PyInt (if b then 1 else 0))
      | _ \<Rightarrow> Inl (TypeError ''only size-1 arrays can be converted to Python scalars''))"

definition int_list :: "bool ndarray \<Rightarrow> error + pyval list" where
  "int_list a = bind (rows a) (traverse int_of_entry)"

text \<open>The position of the first largest entry of a non-empty list.\<close>

definition argmax_list :: "real list \<Rightarrow> nat" where
  "argmax_list xs = length (takeWhile (\<lambda>v. v \<noteq> fold max xs (hd xs)) xs)"

text \<open>\<open>np.argmax(a, axis=-1)\<close>; a 0-d array counts as an array of one entry.\<close>

definition argmax_last :: "real ndarray \<Rightarrow> error + real ndarray" where
  "argmax_last a =
     (case rev (shape a) of
        [] \<Rightarrow> Inr \<lparr>shape = [], data = [0]\<rparr>
      | k # s \<Rightarrow>
          if k = 0 then Inl (ValueError ''attempt to get argmax of an empty sequence'')
          else Inr \<lparr>shape = rev s,
                    data = map (\<lambda>c. real (argmax_list c)) (chunks (prod_list s) k (data a))\<rparr>)"

section \<open>Metric functions\<close>

definition categorical_accuracy :: "real ndarray \<Rightarrow> real ndarray \<Rightarrow> error + pyval list" where
  "categorical_accuracy y0 y_pred0 =
     (let y = (if ndim y0 = 0 then expand y0 else y0);
          y_pred = (if ndim y0 = 0 then expand y_pred0 else y_pred0)
      in if shape y = shape y_pred then bind (np_eq y y_pred) int_list
         else if ndim y + 1 = ndim y_pred then
           (if ndim y = 0
            then bind (argmax_last y_pred) (\<lambda>m. bind (np_eq y m) (\<lambda>b. bind (int_of_entry b) (\<lambda>v. Inr [v])))
            else bind (argmax_last y_pred) (\<lambda>m. bind (np_eq y m) int_list))
         else Inl (ValueError ''mismatched dimensions''))"

text \<open>
  \<open>np.argsort\<close> of one row. numpy's default sort leaves the order of equal scores
  open; the stable order is taken here.
\<close>

definition argsort_list :: "real list \<Rightarrow> nat list" where
  "argsort_list xs = sort_key (\<lambda>i. xs ! i) [0..<length xs]"

text \<open>The slice \<open>[-n:]\<close> of a list, for positive \<open>n\<close>.\<close>

definition last_n :: "nat \<Rightarrow> 'a list \<Rightarrow> 'a list" where
  "last_n n xs = drop (length xs - n) xs"

text \<open>
  The membership test of the top-\<open>n\<close> branch, for a vector of labels and a matrix of
  scores. With more axes the slice \<open>[:, -n:]\<close> no longer cuts the class axis and the
  test \<open>in\<close> broadcasts.
\<close>

definition top_n_rows :: "real ndarray \<Rightarrow> real ndarray \<Rightarrow> nat \<Rightarrow> error + pyval list" where
  "top_n_rows y y_pred n =
     (case rev (shape y_pred) of
        [] \<Rightarrow> Inl (IndexError ''too many indices for array'')
      | k # s \<Rightarrow>
          if ndim y = 1 then
            Inr (map2 (\<lambda>l c. PyInt (if l \<in> set (map real (last_n n (argsort_list c))) then 1 else 0))
                   (data y) (chunks (prod_list s) k (data y_pred)))
          else Inl (Unmodelled ''top-n accuracy on labels of more than one axis''))"

text \<open>
  \<open>n\<close> is an integer, so \<open>n = int(n)\<close> leaves it as it is. After a 0-d \<open>y\<close> has been
  given an axis, the inner test \<open>y.ndim == 0\<close> of the source is never true.
\<close>

definition top_n_categorical_accuracy ::
  "real ndarray \<Rightarrow> real ndarray \<Rightarrow> int \<Rightarrow> error + pyval list" where
  "top_n_categorical_accuracy y0 y_pred0 n =
     (if n < 1 then Inl (ValueError ''n must be a positive integer'')
      else if n = 1 then categorical_accuracy y0 y_pred0
      else
        let y = (if ndim y0 = 0 then expand y0 else y0);
            y_pred = (if ndim y0 = 0 then expand y_pred0 else y_pred0)
        in bind (len y) (\<lambda>ly. bind (len y_pred) (\<lambda>lp.
             if ly \<noteq> lp then Inl (ValueError ''y and y_pred are of different length'')
             else if shape y = shape y_pred
               then Inl (ValueError ''Must supply multiple predictions for top 5 accuracy'')
             else if ndim y + 1 = ndim y_pred then top_n_rows y y_pred (nat n)
             else Inl (ValueError ''mismatched dimensions''))))"

definition top_5_categorical_accuracy :: "real ndarray \<Rightarrow> real ndarray \<Rightarrow> error + pyval list" where
  "top_5_categorical_accuracy y y_pred = top_n_categorical_accuracy y y_pred 5"

text \<open>The order of a vector norm: \<open>np.inf\<close> or a number.\<close>

datatype ord = OrdInf | Ord real

text \<open>
  \<open>np.linalg.norm\<close> of one row. For a negative order numpy raises zero entries to a
  negative power, which yields an infinity.
\<close>

definition vector_norm :: "ord \<Rightarrow> real list \<Rightarrow> error + real" where
  "vector_norm p row =
     (case p of
        OrdInf \<Rightarrow>
          if row = []
          then Inl (ValueError ''zero-size array to reduction operation maximum which has no identity'')
          else Inr (fold max (map abs row) 0)
      | Ord q \<Rightarrow>
          if q = 0 then Inr (real (length (filter (\<lambda>v. v \<noteq> 0) row)))
          else if q = 1 then Inr (sum_list (map abs row))
          else if q = 2 then Inr (sqrt (sum_list (map (\<lambda>v. v * v) row)))
          else if 0 < q then Inr ((sum_list (map (\<lambda>v. \<bar>v\<bar> powr q) row)) powr (1 / q))
          else Inl (Unmodelled ''norm of negative order''))"

text \<open>\<open>norm\<close> of the source; the name \<open>norm\<close> is taken in HOL.\<close>

definition norm_batch :: "real ndarray \<Rightarrow> real ndarray \<Rightarrow> ord \<Rightarrow> error + pyval list" where
  "norm_batch x x_adv p =
     bind (np_sub x x_adv) (\<lambda>diff.
       case shape x of
         [] \<Rightarrow> Inl (IndexError ''tuple index out of range'')
       | n # s \<Rightarrow>
           if n = 0 \<or> length (data diff) mod n \<noteq> 0
           then Inl (ValueError ''cannot reshape array'')
           else bind (traverse (vector_norm p) (chunks n (length (data diff) div n) (data diff)))
                  (\<lambda>norms. Inr (map (\<lambda>v. PyFloat (Fin v)) norms)))"

definition linf :: "real ndarray \<Rightarrow> real ndarray \<Rightarrow> error + pyval list" where
  "linf x x_adv = norm_batch x x_adv OrdInf"

definition l2 :: "real ndarray \<Rightarrow> real ndarray \<Rightarrow> error + pyval list" where
  "l2 x x_adv = norm_batch x x_adv (Ord 2)"

definition l1 :: "real ndarray \<Rightarrow> real ndarray \<Rightarrow> error + pyval list" where
  "l1 x x_adv = norm_batch x x_adv (Ord 1)"

definition lp :: "real ndarray \<Rightarrow> real ndarray \<Rightarrow> ord \<Rightarrow> error + pyval list" where
  "lp x x_adv p =
     (if (case p of OrdInf \<Rightarrow> False | Ord q \<Rightarrow> q \<le> 0)
      then Inl (ValueError ''p must be positive'')
      else norm_batch x x_adv p)"

definition l0 :: "real ndarray \<Rightarrow> real ndarray \<Rightarrow> error + pyval list" where
  "l0 x x_adv = norm_batch x x_adv (Ord 0)"

text \<open>\<open>np.asarray(a, dtype=float)\<close>: every entry becomes the nearest double.\<close>

definition asarray_float :: "real ndarray \<Rightarrow> pyfloat ndarray" where
  "asarray_float a = \<lparr>shape = shape a, data = map double_round (data a)\<rparr>"

text \<open>
  \<open>a.mean()\<close> of a float64 vector: the float64 sum of the entries, divided by their
  number; NaN (with a warning) for a vector without entries. numpy adds the entries of
  a long vector in blocks, in an order that the source does not fix, and the order
  decides how the sum is rounded. The signal-to-noise metrics therefore take the
  function that computes \<open>a.mean()\<close> as their first argument \<open>mean\<close>. \<open>np_mean\<close>
  adds from left to right, as numpy does for a vector of fewer than eight entries;
  the registry below uses it.
\<close>

definition np_mean :: "pyfloat list \<Rightarrow> pyfloat" where
  "np_mean xs = double_div (foldl double_add (Fin 0) xs) (double_round (real (length xs)))"

text \<open>\<open>_snr\<close> and \<open>_snr_spectrogram\<close> of the source.\<close>

definition snr_sample ::
  "(pyfloat list \<Rightarrow> pyfloat) \<Rightarrow> real ndarray \<Rightarrow> real ndarray \<Rightarrow> error + pyfloat" where
  "snr_sample mean x_i x_adv_i =
     (let x_i = asarray_float x_i;
          x_adv_i = asarray_float x_adv_i
      in if shape x_i \<noteq> shape x_adv_i then Inl (ValueError ''x_i.shape != x_adv_i.shape'')
         else if ndim x_i \<noteq> 1
           then Inl (ValueError ''_snr input must be single dimensional (not multichannel)'')
         else
           let signal_power = mean (map (\<lambda>v. double_mul v v) (data x_i));
               noise_power =
                 mean (map (\<lambda>v. double_mul v v) (map2 double_sub (data x_i) (data x_adv_i)))
           in Inr (double_div signal_power noise_power))"

definition snr ::
  "(pyfloat list \<Rightarrow> pyfloat) \<Rightarrow> real ndarray \<Rightarrow> real ndarray \<Rightarrow> error + pyval list" where
  "snr mean x x_adv =
     bind (len x) (\<lambda>lx. bind (len x_adv) (\<lambda>la.
       if lx \<noteq> la then Inl (ValueError ''len(x) != len(x_adv)'')
       else bind (rows x) (\<lambda>xs. bind (rows x_adv) (\<lambda>as.
              bind (traverse (\<lambda>(x_i, x_adv_i). snr_sample mean x_i x_adv_i) (zip xs as))
                (\<lambda>rs. Inr (map PyFloat rs))))))"

definition snr_db ::
  "(pyfloat list \<Rightarrow> pyfloat) \<Rightarrow> real ndarray \<Rightarrow> real ndarray \<Rightarrow> error + pyval list" where
  "snr_db mean x x_adv =
     bind (snr mean x x_adv) (\<lambda>rs. bind (traverse py_float rs)
       (\<lambda>fs. Inr (map (\<lambda>f. PyFloat (fl_mul (Fin 10) (np_log10 f))) fs)))"

definition snr_spectrogram_sample ::
  "(pyfloat list \<Rightarrow> pyfloat) \<Rightarrow> real ndarray \<Rightarrow> real ndarray \<Rightarrow> error + pyfloat" where
  "snr_spectrogram_sample mean x_i x_adv_i =
     (let x_i = asarray_float x_i;
          x_adv_i = asarray_float x_adv_i
      in if shape x_i \<noteq> shape x_adv_i then Inl (ValueError ''x_i.shape != x_adv_i.shape'')
         else
           let signal_power = mean (map fl_abs (data x_i));
               noise_power = mean (map fl_abs (map2 double_sub (data x_i) (data x_adv_i)))
           in Inr (double_div signal_power noise_power))"

definition snr_spectrogram ::
  "(pyfloat list \<Rightarrow> pyfloat) \<Rightarrow> real ndarray \<Rightarrow> real ndarray \<Rightarrow> error + pyval list" where
  "snr_spectrogram mean x x_adv =
     (if shape x \<noteq> shape x_adv then Inl (ValueError ''x.shape != x_adv.shape'')
      else bind (rows x) (\<lambda>xs. bind (rows x_adv) (\<lambda>as.
             bind (traverse (\<lambda>(x_i, x_adv_i). snr_spectrogram_sample mean x_i x_adv_i) (zip xs as))
               (\<lambda>rs. Inr (map PyFloat rs)))))"

definition snr_spectrogram_db ::
  "(pyfloat list \<Rightarrow> pyfloat) \<Rightarrow> real ndarray \<Rightarrow> real ndarray \<Rightarrow> error + pyval list" where
  "snr_spectrogram_db mean x x_adv =
     bind (snr_spectrogram mean x x_adv) (\<lambda>rs. bind (traverse py_float rs)
       (\<lambda>fs. Inr (map (\<lambda>f. PyFloat (fl_mul (Fin 10) (np_log10 f))) fs)))"

text \<open>Whether a float is a number other than zero.\<close>

fun finite_nonzero :: "pyfloat \<Rightarrow> bool" where
  "finite_nonzero (Fin a) = (a \<noteq> 0)"
| "finite_nonzero _ = False"

section \<open>The resource profiler\<close>

text \<open>
  A Python dict keeps insertion order: an association list with distinct keys, read
  with \<open>map_of\<close> and written with \<open>AList.update\<close>. A ledger entry is a
  \<open>defaultdict(lambda: 0)\<close>: reading a missing key stores and returns \<open>0\<close>.
\<close>

type_synonym 'v dict = "(string \<times> 'v) list"

type_synonym ledger = "pyval dict dict"

text \<open>
  A run that mutates shared state: the state it leaves, and the exception if it raised.
\<close>

type_synonym 's outcome = "'s \<times> error option"

text \<open>\<open>entry[k] += v\<close> on a \<open>defaultdict(lambda: 0)\<close>.\<close>

definition dd_iadd :: "pyval dict \<Rightarrow> string \<Rightarrow> pyval \<Rightarrow> pyval dict outcome" where
  "dd_iadd entry k v =
     (let entry1 = (case map_of entry k of None \<Rightarrow> entry @ [(k, PyInt 0)] | Some w \<Rightarrow> entry);
          old = (case map_of entry k of None \<Rightarrow> PyInt 0 | Some w \<Rightarrow> w)
      in case py_add old v of
           Inl e \<Rightarrow> (entry1, Some e)
         | Inr w \<Rightarrow> (AList.update k w entry1, None))"

definition profiler_types :: "string list" where
  "profiler_types = [''Basic'', ''Deterministic'']"

text \<open>
  The code of \<open>resource_context\<close> after its \<open>yield\<close>. \<open>elapsedTime\<close> is the difference
  of the two readings of \<open>time.perf_counter\<close>, \<open>stats\<close> the text the call-stack profiler
  printed. The ledger argument defaults to \<open>None\<close> in the source.
\<close>

definition resource_context_exit ::
  "string \<Rightarrow> string \<Rightarrow> pyfloat \<Rightarrow> string \<Rightarrow> ledger option \<Rightarrow> ledger option outcome" where
  "resource_context_exit name profiler elapsedTime stats computational_resource_dict =
     (case computational_resource_dict of
        None \<Rightarrow> (None, Some (TypeError ''argument of type NoneType is not iterable''))
      | Some d \<Rightarrow>
          let d1 = (if name \<in> fst ` set d then d
                    else d @ [(name, if profiler = ''Deterministic''
                                     then [(''stats'', PyStr '''')] else [])]);
              c0 = (case map_of d1 name of Some c \<Rightarrow> c | None \<Rightarrow> []);
              (c1, r1) = dd_iadd c0 ''execution_count'' (PyInt 1)
          in case r1 of
               Some e \<Rightarrow> (Some (AList.update name c1 d1), Some e)
             | None \<Rightarrow>
                 let (c2, r2) = dd_iadd c1 ''total_time'' (PyFloat elapsedTime)
                 in case r2 of
                      Some e \<Rightarrow> (Some (AList.update name c2 d1), Some e)
                    | None \<Rightarrow>
                        if profiler = ''Deterministic''
                        then let (c3, r3) = dd_iadd c2 ''stats'' (PyStr stats)
                             in (Some (AList.update name c3 d1), r3)
                        else (Some (AList.update name c2 d1), None))"

text \<open>
  \<open>with resource_context(name, profiler, computational_resource_dict): body\<close>.
  The function is a generator under \<open>contextlib.contextmanager\<close>: entering the region
  runs it up to the \<open>yield\<close>, a normal end of the body resumes it after the \<open>yield\<close>,
  and an exception of the body is thrown into it at the \<open>yield\<close>. No exception
  handler encloses the \<open>yield\<close>, so a thrown exception leaves the generator at once.
  The body sees the ledger and may change it.
\<close>

definition resource_context ::
  "string \<Rightarrow> string option \<Rightarrow> ledger option \<Rightarrow> real \<Rightarrow> real \<Rightarrow> string \<Rightarrow>
     (ledger option \<Rightarrow> ledger option outcome) \<Rightarrow> ledger option outcome" where
  "resource_context name profiler computational_resource_dict startTime endTime stats body =
     (case profiler of
        None \<Rightarrow> body computational_resource_dict
      | Some p \<Rightarrow>
          if p \<notin> set profiler_types
          then (computational_resource_dict, Some (ValueError ''Profiler is not one of profiler_types''))
          else (case body computational_resource_dict of
                  (d, Some e) \<Rightarrow> (d, Some e)
                | (d, None) \<Rightarrow> resource_context_exit name p (Fin (endTime - startTime)) stats d))"

text \<open>
  What the ledger holds for a region and a field, as a read of the entry would give it:
  \<open>0\<close> when the region has no entry yet or the entry lacks the field.
\<close>

definition ledger_field :: "ledger \<Rightarrow> string \<Rightarrow> string \<Rightarrow> pyval" where
  "ledger_field d name k =
     (case map_of d name of
        None \<Rightarrow> PyInt 0
      | Some entry \<Rightarrow> (case map_of entry k of None \<Rightarrow> PyInt 0 | Some v \<Rightarrow> v))"

section \<open>Metric lists\<close>

type_synonym metric_fn = "real ndarray \<Rightarrow> real ndarray \<Rightarrow> error + pyval list"

text \<open>
  The registry. Every call through a metric list passes the two batches and nothing
  else, so the three functions that need a third argument raise when called this way.
\<close>

definition missing_argument :: metric_fn where
  "missing_argument y y_pred = Inl (TypeError ''missing 1 required positional argument'')"

definition SUPPORTED_METRICS :: "string \<Rightarrow> metric_fn option" where
  "SUPPORTED_METRICS = map_of
     [(''categorical_accuracy'', categorical_accuracy),
      (''top_n_categorical_accuracy'', missing_argument),
      (''top_5_categorical_accuracy'', top_5_categorical_accuracy),
      (''norm'', missing_argument),
      (''l0'', l0),
      (''l1'', l1),
      (''l2'', l2),
      (''lp'', missing_argument),
      (''linf'', linf),
      (''snr'', snr np_mean),
      (''snr_db'', snr_db np_mean),
      (''snr_spectrogram'', snr_spectrogram np_mean),
      (''snr_spectrogram_db'', snr_spectrogram_db np_mean)]"

record MetricList =
  metric_name :: string
  metric_function :: metric_fn
  metric_values :: "pyval list"

text \<open>The \<open>function\<close> argument of the constructor: absent, a callable, or anything else.\<close>

datatype function_arg = FNone | FCallable metric_fn | FOther

definition MetricList_init :: "string \<Rightarrow> function_arg \<Rightarrow> error + MetricList" where
  "MetricList_init name function_arg =
     (case function_arg of
        FNone \<Rightarrow>
          (case SUPPORTED_METRICS name of
             None \<Rightarrow> Inl (KeyError ''is not part of armory.utils.metrics'')
           | Some f \<Rightarrow> Inr \<lparr>metric_name = name, metric_function = f, metric_values = []\<rparr>)
      | FCallable f \<Rightarrow> Inr \<lparr>metric_name = name, metric_function = f, metric_values = []\<rparr>
      | FOther \<Rightarrow> Inl (ValueError ''function must be callable or None''))"

definition MetricList_clear :: "MetricList \<Rightarrow> MetricList" where
  "MetricList_clear m = m\<lparr>metric_values := []\<rparr>"

definition MetricList_append :: "MetricList \<Rightarrow> real ndarray \<Rightarrow> real ndarray \<Rightarrow> error + MetricList" where
  "MetricList_append m y y_pred =
     bind (metric_function m y y_pred)
       (\<lambda>scores. Inr (m\<lparr>metric_values := metric_values m @ scores\<rparr>))"

definition MetricList_len :: "MetricList \<Rightarrow> nat" where
  "MetricList_len m = length (metric_values m)"

definition MetricList_values :: "MetricList \<Rightarrow> pyval list" where
  "MetricList_values m = metric_values m"

text \<open>\<open>sum(float(x) for x in self._values) / len(self._values)\<close>; \<open>sum\<close> starts at \<open>0\<close>.\<close>

definition MetricList_mean :: "MetricList \<Rightarrow> error + pyfloat" where
  "MetricList_mean m =
     bind (traverse py_float (metric_values m))
       (\<lambda>fs. py_truediv (foldl fl_add (Fin 0) fs) (Fin (real (length (metric_values m)))))"

section \<open>The metrics logger\<close>

record MetricsLogger =
  tasks :: "MetricList list"
  adversarial_tasks :: "MetricList list"
  perturbations :: "MetricList list"
  means :: bool
  full :: bool
  computational_resource_dict :: ledger

text \<open>
  A \<open>task\<close> or \<open>perturbation\<close> argument: \<open>None\<close>, a string, a list of strings, or
  else. \<open>generate_counters\<close> is \<open>_generate_counters\<close> of the source.
\<close>

datatype names_arg = NoNames | OneName string | NameList "string list" | OtherNames

definition generate_counters :: "names_arg \<Rightarrow> error + MetricList list" where
  "generate_counters names =
     (case names of
        NoNames \<Rightarrow> Inr []
      | OneName s \<Rightarrow> traverse (\<lambda>x. MetricList_init x FNone) [s]
      | NameList l \<Rightarrow> traverse (\<lambda>x. MetricList_init x FNone) l
      | OtherNames \<Rightarrow> Inl (ValueError ''must be one of (None, str, list)''))"

text \<open>
  The constructor. Its last two arguments, \<open>profiler_type\<close> and
  \<open>computational_resource_dict\<close>, may be Python values of any kind. The two warnings
  it may log are not part of the state.
\<close>

definition MetricsLogger_init ::
  "names_arg \<Rightarrow> names_arg \<Rightarrow> bool \<Rightarrow> bool \<Rightarrow> 'p \<Rightarrow> 'c \<Rightarrow> error + MetricsLogger" where
  "MetricsLogger_init task perturbation means_arg record_metric_per_sample profiler_type crd =
     bind (generate_counters task) (\<lambda>t.
     bind (generate_counters task) (\<lambda>a.
     bind (generate_counters perturbation) (\<lambda>p.
       Inr \<lparr>tasks = t, adversarial_tasks = a, perturbations = p,
            means = means_arg, full = record_metric_per_sample,
            computational_resource_dict = []\<rparr>)))"

definition MetricsLogger_clear :: "MetricsLogger \<Rightarrow> MetricsLogger" where
  "MetricsLogger_clear lg =
     lg\<lparr>tasks := map MetricList_clear (tasks lg),
        adversarial_tasks := map MetricList_clear (adversarial_tasks lg),
        perturbations := map MetricList_clear (perturbations lg)\<rparr>"

text \<open>
  \<open>for metric in metrics: metric.append(y, y_pred)\<close>: the lists before the one that
  raises stay extended.
\<close>

fun append_all :: "MetricList list \<Rightarrow> real ndarray \<Rightarrow> real ndarray \<Rightarrow> MetricList list outcome" where
  "append_all [] y y_pred = ([], None)"
| "append_all (m # ms) y y_pred =
     (case MetricList_append m y y_pred of
        Inl e \<Rightarrow> (m # ms, Some e)
      | Inr m' \<Rightarrow> (case append_all ms y y_pred of (ms', r) \<Rightarrow> (m' # ms', r)))"

definition update_task ::
  "MetricsLogger \<Rightarrow> real ndarray \<Rightarrow> real ndarray \<Rightarrow> bool \<Rightarrow> MetricsLogger outcome" where
  "update_task lg y y_pred adversarial =
     (if adversarial
      then (case append_all (adversarial_tasks lg) y y_pred of
              (ms, r) \<Rightarrow> (lg\<lparr>adversarial_tasks := ms\<rparr>, r))
      else (case append_all (tasks lg) y y_pred of
              (ms, r) \<Rightarrow> (lg\<lparr>tasks := ms\<rparr>, r)))"

definition update_perturbation ::
  "MetricsLogger \<Rightarrow> real ndarray \<Rightarrow> real ndarray \<Rightarrow> MetricsLogger outcome" where
  "update_perturbation lg x x_adv =
     (case append_all (perturbations lg) x x_adv of
        (ms, r) \<Rightarrow> (lg\<lparr>perturbations := ms\<rparr>, r))"

text \<open>A loop whose body may raise.\<close>

fun fold_err :: "('a \<Rightarrow> 's \<Rightarrow> error + 's) \<Rightarrow> 'a list \<Rightarrow> 's \<Rightarrow> error + 's" where
  "fold_err f [] s = Inr s"
| "fold_err f (x # xs) s = bind (f x s) (fold_err f xs)"

text \<open>The body of the inner loop of \<open>results\<close>, for one metric of one group.\<close>

definition results_metric ::
  "bool \<Rightarrow> bool \<Rightarrow> string \<Rightarrow> MetricList \<Rightarrow> pyval dict \<Rightarrow> error + pyval dict" where
  "results_metric full_flag means_flag prefix metric results =
     (let r1 = (if full_flag
                then AList.update (prefix @ ''_'' @ metric_name metric)
                       (PyList (MetricList_values metric)) results
                else results)
      in if means_flag
         then (case MetricList_mean metric of
                 Inl (ZeroDivisionError msg) \<Rightarrow>
                   Inl (ZeroDivisionError
                          (''No values to calculate mean in '' @ prefix @ ''_'' @ metric_name metric))
               | Inl e \<Rightarrow> Inl e
               | Inr v \<Rightarrow> Inr (AList.update (prefix @ ''_mean_'' @ metric_name metric) (PyFloat v) r1))
         else Inr r1)"

definition results_metrics :: "MetricsLogger \<Rightarrow> error + pyval dict" where
  "results_metrics lg =
     fold_err (\<lambda>(metrics, prefix). fold_err (results_metric (full lg) (means lg) prefix) metrics)
       [(tasks lg, ''benign''),
        (adversarial_tasks lg, ''adversarial''),
        (perturbations lg, ''perturbation'')] []"

text \<open>The body of the second loop of \<open>results\<close>, for one entry of the ledger.\<close>

definition results_resource :: "string \<times> pyval dict \<Rightarrow> pyval dict \<Rightarrow> error + pyval dict" where
  "results_resource ne results =
     (case ne of (name, entry) \<Rightarrow>
        (case (map_of entry ''execution_count'', map_of entry ''total_time'') of
           (Some execution_count, Some total_time) \<Rightarrow>
              bind (py_div total_time execution_count) (\<lambda>average_time.
              bind (py_format execution_count) (\<lambda>c.
                let r1 = AList.update (''Avg. CPU time (s) for '' @ c @ '' executions of '' @ name)
                           average_time results
                in case map_of entry ''stats'' of
                     Some s \<Rightarrow> Inr (AList.update (name @ '' profiler stats'') s r1)
                   | None \<Rightarrow> Inr r1))
         | _ \<Rightarrow> Inl (ValueError ''Computational resource dictionary entry corrupted, missing data.'')))"

definition results :: "MetricsLogger \<Rightarrow> error + pyval dict" where
  "results lg =
     bind (results_metrics lg) (fold_err results_resource (computational_resource_dict lg))"

section \<open>The poisoning scenario\<close>

text \<open>
  An image is a nested list of height, width and channels, each of length at least one
  and rectangular, as a slice of a numpy array is. \<open>transpose_201\<close> is
  \<open>np.transpose(img, (2, 0, 1))\<close>, channels first; \<open>transpose_120\<close> is
  \<open>np.transpose(img, (1, 2, 0))\<close>, channels last again.
\<close>

type_synonym 'a image = "'a list list list"

definition transpose_201 :: "'a image \<Rightarrow> 'a image" where
  "transpose_201 img = transpose (map transpose img)"

definition transpose_120 :: "'a image \<Rightarrow> 'a image" where
  "transpose_120 img = map transpose (transpose img)"

text \<open>
  The attack object is external: \<open>attack img tgt\<close> stands for
  \<open>attack.poison(img, [tgt])\<close> and returns the poisoned image with the label that
  \<open>np.array(poison_y)\<close> stores for it.
\<close>

type_synonym 'a attack = "'a image \<Rightarrow> int \<Rightarrow> 'a image \<times> int"

text \<open>The body of the loop of \<open>poison_dataset\<close>, for one index.\<close>

definition poison_sample ::
  "'a image list \<Rightarrow> int list \<Rightarrow> int \<Rightarrow> int \<Rightarrow> 'a attack \<Rightarrow> nat list \<Rightarrow> nat \<Rightarrow>
     error + ('a image \<times> int)" where
  "poison_sample src_imgs src_lbls src tgt attack poisoned_indices idx =
     (if length src_lbls \<le> idx then Inl (IndexError ''index out of bounds'')
      else if src_lbls ! idx = src \<and> idx \<in> set poisoned_indices then
        (if length src_imgs \<le> idx then Inl (IndexError ''index out of bounds'')
         else let src_img = transpose_201 (src_imgs ! idx);
                  (p_img, p_label) = attack src_img tgt
              in Inr (transpose_120 p_img, p_label))
      else if length src_imgs \<le> idx then Inl (IndexError ''index out of bounds'')
      else Inr (src_imgs ! idx, src_lbls ! idx))"

definition poison_dataset ::
  "'a image list \<Rightarrow> int list \<Rightarrow> int \<Rightarrow> int \<Rightarrow> nat \<Rightarrow> 'a attack \<Rightarrow> nat list \<Rightarrow>
     error + ('a image list \<times> int list)" where
  "poison_dataset src_imgs src_lbls src tgt ds_size attack poisoned_indices =
     bind (traverse (poison_sample src_imgs src_lbls src tgt attack poisoned_indices) [0..<ds_size])
       (\<lambda>ps. Inr (map fst ps, map snd ps))"

text \<open>\<open>np.bincount\<close> of a vector of labels.\<close>

definition bincount :: "int list \<Rightarrow> error + nat list" where
  "bincount y =
     (if list_ex (\<lambda>l. l < 0) y
      then Inl (ValueError ''bincount: first argument must be non-negative'')
      else Inr (map (\<lambda>k. count_list y (int k))
                  [0..<(if y = [] then 0 else nat (fold max y 0) + 1)]))"

text \<open>\<open>a[i]\<close>: a negative index counts from the end.\<close>

definition py_index :: "'a list \<Rightarrow> int \<Rightarrow> error + 'a" where
  "py_index a i =
     (if 0 \<le> i \<and> i < int (length a) then Inr (a ! nat i)
      else if i < 0 \<and> - int (length a) \<le> i then Inr (a ! nat (int (length a) + i))
      else Inl (IndexError ''index out of bounds''))"

text \<open>
  \<open>int(x)\<close> of a float: rounding towards zero; an infinity and NaN have no integer.
\<close>

fun py_int :: "pyfloat \<Rightarrow> error + int" where
  "py_int (Fin x) = Inr (if 0 \<le> x then \<lfloor>x\<rfloor> else \<lceil>x\<rceil>)"
| "py_int NaN = Inl (ValueError ''cannot convert float NaN to integer'')"
| "py_int _ = Inl (OverflowError ''cannot convert float infinity to integer'')"

text \<open>\<open>np.where(y == c)[0]\<close>.\<close>

definition where_eq :: "int list \<Rightarrow> int \<Rightarrow> nat list" where
  "where_eq y c = filter (\<lambda>i. y ! i = c) [0..<length y]"

text \<open>
  \<open>np.random.choice(a, size=size, replace=False)\<close>. numpy draws a permutation of the
  positions of \<open>a\<close> from the seeded generator and returns the entries at its first
  \<open>sz\<close> positions (\<open>sz\<close> is the argument \<open>size\<close>); \<open>permutation n\<close> stands for the
  permutation drawn for a population of \<open>n\<close>.
\<close>

definition choice :: "'a list \<Rightarrow> int \<Rightarrow> (nat \<Rightarrow> nat list) \<Rightarrow> error + 'a list" where
  "choice a sz permutation =
     (if length a = 0 \<and> sz \<noteq> 0
        then Inl (ValueError ''a cannot be empty unless no samples are taken'')
      else if int (length a) < sz
        then Inl (ValueError ''Cannot take a larger sample than population when replace=False'')
      else if sz < 0 then Inl (ValueError ''negative dimensions are not allowed'')
      else Inr (map (\<lambda>i. a ! i) (take (nat sz) (permutation (length a)))))"

text \<open>
  The selection of the indices to poison in \<open>GTSRB._evaluate\<close>, when the attack is not
  preloaded and \<open>poison_dataset_flag\<close> is set. \<open>fraction_poisoned\<close> is a float; the
  product with the count, an integer of numpy, is the float64 product.
\<close>

definition select_poisoned_indices ::
  "int list \<Rightarrow> int \<Rightarrow> pyfloat \<Rightarrow> (nat \<Rightarrow> nat list) \<Rightarrow> error + nat list" where
  "select_poisoned_indices y_train_all src_class fraction_poisoned permutation =
     bind (bincount y_train_all) (\<lambda>counts.
     bind (py_index counts src_class) (\<lambda>total_count.
     bind (py_int (double_mul fraction_poisoned (double_round (real total_count)))) (\<lambda>poison_count.
       let src_indices = where_eq y_train_all src_class
       in choice src_indices poison_count permutation)))"

text \<open>\<open>np.asarray\<close> of a list of integer labels.\<close>

definition labels_array :: "int list \<Rightarrow> real ndarray" where
  "labels_array y = vec (map real_of_int y)"

text \<open>\<open>a[mask]\<close> for a boolean vector \<open>keep\<close>: the sub-arrays along the first axis that it keeps.\<close>

definition mask_rows :: "'b ndarray \<Rightarrow> bool list \<Rightarrow> error + 'b ndarray" where
  "mask_rows a keep =
     (case shape a of
        [] \<Rightarrow> Inl (IndexError ''too many indices for array'')
      | n # s \<Rightarrow>
          if length keep \<noteq> n
          then Inl (IndexError ''boolean index did not match indexed array along dimension 0'')
          else let kept = map snd (filter fst (zip keep (chunks n (prod_list s) (data a))))
               in Inr \<lparr>shape = length kept # s, data = concat kept\<rparr>)"

text \<open>
  The external collaborators of the scoring phase: \<open>predict\<close> is \<open>classifier.predict\<close>
  after training, a data set is the list of its batches \<open>(x, y)\<close>.
\<close>

type_synonym 'a batches = "('a image list \<times> int list) list"

text \<open>The body of the loop over the clean test data.\<close>

definition validation_step ::
  "('a image list \<Rightarrow> real ndarray) \<Rightarrow> int \<Rightarrow> 'a image list \<times> int list \<Rightarrow>
     MetricList \<times> MetricList \<Rightarrow> error + (MetricList \<times> MetricList)" where
  "validation_step predict src_class batch ms =
     (case batch of (x, y) \<Rightarrow>
      case ms of (validation_metric, target_class_benign_metric) \<Rightarrow>
        let y_pred = predict x
        in bind (MetricList_append validation_metric (labels_array y) y_pred) (\<lambda>vm.
           bind (mask_rows y_pred (map (\<lambda>l. l = src_class) y)) (\<lambda>y_pred_tgt_class.
           bind (len y_pred_tgt_class) (\<lambda>n.
             if n \<noteq> 0
             then bind (MetricList_append target_class_benign_metric
                          (labels_array (replicate n src_class)) y_pred_tgt_class)
                    (\<lambda>tm. Inr (vm, tm))
             else Inr (vm, target_class_benign_metric)))))"

definition validation_loop ::
  "('a image list \<Rightarrow> real ndarray) \<Rightarrow> int \<Rightarrow> 'a batches \<Rightarrow> error + (MetricList \<times> MetricList)" where
  "validation_loop predict src_class test_data =
     bind (MetricList_init ''categorical_accuracy'' FNone) (\<lambda>validation_metric.
     bind (MetricList_init ''categorical_accuracy'' FNone) (\<lambda>target_class_benign_metric.
       fold_err (validation_step predict src_class) test_data
         (validation_metric, target_class_benign_metric)))"

text \<open>
  The bodies of the three loops over poisoned test data; the state is
  \<open>(test_metric, targeted_test_metric)\<close>.
\<close>

definition preloaded_step ::
  "('a image list \<Rightarrow> real ndarray) \<Rightarrow> int \<Rightarrow> 'a image list \<times> int list \<Rightarrow>
     MetricList \<times> MetricList \<Rightarrow> error + (MetricList \<times> MetricList)" where
  "preloaded_step predict src_class batch ms =
     (case batch of (x_poison_test, y_poison_test) \<Rightarrow>
      case ms of (test_metric, targeted_test_metric) \<Rightarrow>
        let y_pred = predict x_poison_test
        in bind (len y_pred) (\<lambda>n.
           bind (MetricList_append targeted_test_metric (labels_array y_poison_test) y_pred) (\<lambda>tt.
           bind (MetricList_append test_metric (labels_array (replicate n src_class)) y_pred) (\<lambda>te.
             Inr (te, tt)))))"

definition clean_step ::
  "('a image list \<Rightarrow> real ndarray) \<Rightarrow> 'a image list \<times> int list \<Rightarrow>
     MetricList \<times> MetricList \<Rightarrow> error + (MetricList \<times> MetricList)" where
  "clean_step predict batch ms =
     (case batch of (x_clean_test, y_clean_test) \<Rightarrow>
      case ms of (test_metric, targeted_test_metric) \<Rightarrow>
        bind (MetricList_append test_metric (labels_array y_clean_test) (predict x_clean_test))
          (\<lambda>te. Inr (te, targeted_test_metric)))"

definition poison_step ::
  "('a image list \<Rightarrow> real ndarray) \<Rightarrow> 'a attack \<Rightarrow> int \<Rightarrow> int \<Rightarrow> 'a image list \<times> int list \<Rightarrow>
     MetricList \<times> MetricList \<Rightarrow> error + (MetricList \<times> MetricList)" where
  "poison_step predict attack src_class tgt_class batch ms =
     (case batch of (x_test, y_test) \<Rightarrow>
      case ms of (test_metric, targeted_test_metric) \<Rightarrow>
        let src_indices = where_eq y_test src_class;
            poisoned_indices = src_indices
        in bind (poison_dataset x_test y_test src_class tgt_class (length y_test) attack
                   poisoned_indices) (\<lambda>(x_poisoned, y_poisoned).
           let y_pred = predict x_poisoned
           in bind (MetricList_append test_metric (labels_array y_test) y_pred) (\<lambda>te.
              bind (mask_rows y_pred (map (\<lambda>l. l = src_class) y_test)) (\<lambda>y_pred_targeted.
              bind (len y_pred_targeted) (\<lambda>n.
                if n = 0 then Inr (te, targeted_test_metric)
                else bind (MetricList_append targeted_test_metric
                             (labels_array (replicate n tgt_class)) y_pred_targeted)
                       (\<lambda>tt. Inr (te, tt)))))))"

definition poisoned_loops ::
  "('a image list \<Rightarrow> real ndarray) \<Rightarrow> 'a attack \<Rightarrow> int \<Rightarrow> int \<Rightarrow> string option \<Rightarrow> bool \<Rightarrow>
     'a batches \<Rightarrow> 'a batches \<Rightarrow> error + (MetricList \<times> MetricList)" where
  "poisoned_loops predict attack src_class tgt_class attack_type poison_dataset_flag
       test_data test_data_poison =
     bind (MetricList_init ''categorical_accuracy'' FNone) (\<lambda>test_metric.
     bind (MetricList_init ''categorical_accuracy'' FNone) (\<lambda>targeted_test_metric.
       if attack_type = Some ''preloaded''
       then bind (fold_err (preloaded_step predict src_class) test_data_poison
                    (test_metric, targeted_test_metric))
              (fold_err (clean_step predict) test_data)
       else if poison_dataset_flag
       then fold_err (poison_step predict attack src_class tgt_class) test_data
              (test_metric, targeted_test_metric)
       else Inr (test_metric, targeted_test_metric)))"

text \<open>
  \<open>GTSRB._evaluate\<close> from the validation on clean test data to its return: the
  trained classifier is scored and the result mapping built. The test split is loaded
  three times from the same configuration and gives the same batches each time. The
  means that are only logged are computed as well, so an empty list raises there.
\<close>

definition evaluate_scores ::
  "('a image list \<Rightarrow> real ndarray) \<Rightarrow> 'a attack \<Rightarrow> int \<Rightarrow> int \<Rightarrow> string option \<Rightarrow> bool \<Rightarrow>
     'a batches \<Rightarrow> 'a batches \<Rightarrow> error + pyval dict" where
  "evaluate_scores predict attack src_class tgt_class attack_type poison_dataset_flag
       test_data test_data_poison =
     bind (validation_loop predict src_class test_data)
       (\<lambda>(validation_metric, target_class_benign_metric).
     bind (MetricList_mean validation_metric) (\<lambda>va.
     bind (MetricList_mean target_class_benign_metric) (\<lambda>vt.
       let results = [(''validation_accuracy'', PyFloat va),
                      (''validation_accuracy_targeted_class'', PyFloat vt)]
       in bind (poisoned_loops predict attack src_class tgt_class attack_type poison_dataset_flag
                  test_data test_data_poison) (\<lambda>(test_metric, targeted_test_metric).
          if poison_dataset_flag \<or> attack_type = Some ''preloaded''
          then bind (MetricList_mean test_metric) (\<lambda>ta.
               bind (MetricList_mean targeted_test_metric) (\<lambda>tm.
                 Inr (AList.update ''targeted_misclassification_accuracy'' (PyFloat tm)
                        (AList.update ''test_accuracy'' (PyFloat ta) results))))
          else Inr results))))"

section \<open>Auxiliary facts\<close>

subsection \<open>Lists, loops and arrays\<close>

lemma traverse_map:
  "(\<And>x. x \<in> set xs \<Longrightarrow> f x = Inr (g x)) \<Longrightarrow> traverse f xs = Inr (map g xs)"
  by (induction xs) auto

lemma traverse_range:
  "traverse f xs = Inr ys \<Longrightarrow> length ys = length xs \<and> (\<forall>y\<in>set ys. \<exists>x\<in>set xs. f x = Inr y)"
proof (induction xs arbitrary: ys)
  case Nil
  then show ?case by simp
next
  case (Cons x xs)
  then show ?case by (fastforce split: sum.splits)
qed

lemma length_chunks: "length (chunks n d xs) = n"
  by (induction n arbitrary: xs) auto

lemma set_chunks: "c \<in> set (chunks n d xs) \<Longrightarrow> set c \<subseteq> set xs"
proof (induction n arbitrary: xs)
  case 0
  then show ?case by simp
next
  case (Suc n)
  from Suc.prems have "c = take d xs \<or> c \<in> set (chunks n d (drop d xs))" by simp
  then show ?case
  proof
    assume "c = take d xs"
    then show ?thesis using set_take_subset by fast
  next
    assume "c \<in> set (chunks n d (drop d xs))"
    then have "set c \<subseteq> set (drop d xs)" by (rule Suc.IH)
    then show ?thesis using set_drop_subset by fast
  qed
qed

lemma length_chunk:
  "n * d \<le> length xs \<Longrightarrow> c \<in> set (chunks n d xs) \<Longrightarrow> length c = d"
proof (induction n arbitrary: xs)
  case 0
  then show ?case by simp
next
  case (Suc n)
  from Suc.prems(1) have le: "d \<le> length xs" "n * d \<le> length (drop d xs)" by auto
  from Suc.prems(2) have "c = take d xs \<or> c \<in> set (chunks n d (drop d xs))" by simp
  then show ?case
  proof
    assume "c = take d xs"
    then show ?thesis using le(1) by simp
  next
    assume "c \<in> set (chunks n d (drop d xs))"
    with le(2) show ?thesis by (rule Suc.IH)
  qed
qed

lemma chunks_replicate: "chunks n d (replicate (n * d) z) = replicate n (replicate d z)"
proof (induction n)
  case 0
  then show ?case by simp
next
  case (Suc n)
  have "drop d (replicate (Suc n * d) z) = replicate (n * d) z" by simp
  moreover have "take d (replicate (Suc n * d) z) = replicate d z" by simp
  ultimately show ?case using Suc.IH by simp
qed

lemma zip_replicate_right: "length cs = n \<Longrightarrow> zip cs (replicate n z) = map (\<lambda>c. (c, z)) cs"
  by (induction cs arbitrary: n) auto

lemma map2_sub_self: "map2 (\<lambda>u v. u - v) d d = replicate (length d) (0::real)"
  by (induction d) auto

lemma sum_squares_zero: "set c \<subseteq> {0} \<Longrightarrow> sum_list (map (\<lambda>v. v * v) c) = (0::real)"
  by (induction c) auto

subsection \<open>Rounding to float64\<close>

lemma two_powr_int:
  "2 powr real_of_int e = (if 0 \<le> e then 2 ^ nat e else 1 / 2 ^ nat (- e))"
proof (cases "0 \<le> e")
  case True
  then have "real_of_int e = real (nat e)" by simp
  then have "2 powr real_of_int e = 2 powr real (nat e)" by (simp only:)
  also have "\<dots> = 2 ^ nat e" by (rule powr_realpow) simp
  finally show ?thesis using True by simp
next
  case False
  then have "real_of_int e = - real (nat (- e))" by simp
  then have "2 powr real_of_int e = 2 powr (- real (nat (- e)))" by (simp only:)
  also have "\<dots> = inverse (2 powr real (nat (- e)))" by (rule powr_minus)
  also have "2 powr real (nat (- e)) = (2::real) ^ nat (- e)" by (rule powr_realpow) simp
  finally show ?thesis using False by (simp add: divide_inverse)
qed

lemma binade_eq:
  assumes "x \<noteq> 0" and "2 powr real_of_int e \<le> \<bar>x\<bar>" and "\<bar>x\<bar> < 2 powr real_of_int (e + 1)"
    and "- 1022 \<le> e"
  shows "binade x = e"
proof -
  have "0 < \<bar>x\<bar>" using assms(1) by simp
  then have "\<lfloor>log 2 \<bar>x\<bar>\<rfloor> = e"
    using assms(2,3) by (subst floor_log_eq_powr_iff) simp_all
  then show ?thesis using assms(4) by (simp add: binade_def)
qed

lemma round_even_int: "round_even (real_of_int k) = k"
  by (simp add: round_even_def)

lemma round_even_nonneg: "0 \<le> q \<Longrightarrow> 0 \<le> round_even q"
  by (auto simp: round_even_def Let_def)

lemma round_even_le: "real_of_int (round_even q) \<le> q + 1 / 2"
proof -
  define r where "r = \<lfloor>q\<rfloor>"
  have le: "real_of_int r \<le> q" by (simp add: r_def)
  consider "q - real_of_int r < 1 / 2" | "1 / 2 < q - real_of_int r" | "q - real_of_int r = 1 / 2"
    by linarith
  then show ?thesis
  proof cases
    case 1
    then have "round_even q = r" by (simp add: round_even_def r_def)
    with le show ?thesis by simp
  next
    case 2
    then have "round_even q = r + 1" by (simp add: round_even_def r_def)
    with 2 show ?thesis by simp
  next
    case 3
    then have "round_even q = r \<or> round_even q = r + 1"
      by (simp add: round_even_def r_def Let_def)
    with 3 show ?thesis by auto
  qed
qed

lemma ulp_pos: "0 < ulp x"
  by (simp add: ulp_def)

lemma two_54_less: "(2::real) ^ 54 < overflow_threshold"
  unfolding overflow_threshold_def by (rule power_strict_increasing) simp_all

lemma real_less_two_53: "n < 2 ^ 53 \<Longrightarrow> real n < 2 ^ 53"
proof -
  assume "n < 2 ^ 53"
  then have "real n < real (2 ^ 53)" by (simp only: of_nat_less_iff)
  then show ?thesis by (simp del: power_numeral)
qed

lemma binade_le_52:
  assumes "0 < x" and "x < 2 ^ 53"
  shows "binade x \<le> 52"
proof -
  have "(2::real) powr real (53::nat) = 2 ^ 53" by (rule powr_realpow) simp
  then have "x < 2 powr 53" using assms(2) by (simp del: power_numeral)
  with assms(1) have "log 2 x < 53" by (subst log_less_iff) simp_all
  then have "\<lfloor>log 2 x\<rfloor> < 53" by (simp add: floor_less_iff)
  then show ?thesis using assms(1) by (simp add: binade_def)
qed

lemma ulp_le_1:
  assumes "0 < x" and "x < 2 ^ 53"
  shows "ulp x \<le> 1"
proof -
  have "real_of_int (binade x - 52) \<le> 0" using binade_le_52 [OF assms] by simp
  then have "2 powr real_of_int (binade x - 52) \<le> 2 powr 0"
    by (intro powr_mono) simp_all
  then show ?thesis by (simp add: ulp_def)
qed

lemma double_round_bound:
  assumes "0 \<le> x" and "x \<le> real n" and "n < 2 ^ 53"
  shows "\<exists>y. double_round x = Fin y \<and> 0 \<le> y \<and> y < real n + 1"
proof (cases "x = 0")
  case True
  then show ?thesis by (simp add: double_round_def)
next
  case False
  with assms(1) have pos: "0 < x" by simp
  have n53: "real n < 2 ^ 53" using assms(3) by (rule real_less_two_53)
  with assms(2) have lt: "x < 2 ^ 53" by simp
  define m where "m = round_even (x / ulp x)"
  define y where "y = real_of_int m * ulp x"
  have u: "0 < ulp x" "ulp x \<le> 1" using ulp_pos ulp_le_1 [OF pos lt] by simp_all
  have "0 \<le> x / ulp x" using pos u by simp
  then have m0: "0 \<le> m" unfolding m_def by (rule round_even_nonneg)
  then have y0: "0 \<le> y" using u by (simp add: y_def)
  have "real_of_int m \<le> x / ulp x + 1 / 2" unfolding m_def by (rule round_even_le)
  then have "y \<le> (x / ulp x + 1 / 2) * ulp x"
    unfolding y_def using u by (intro mult_right_mono) simp_all
  also have "\<dots> = x + ulp x / 2" using u by (simp add: algebra_simps)
  also have "\<dots> \<le> x + 1 / 2" using u by simp
  finally have "y \<le> x + 1 / 2" .
  with assms(2) have y1: "y < real n + 1" by simp
  have "y < 2 ^ 53 + 1" using y1 n53 by linarith
  also have "(2::real) ^ 53 + 1 \<le> 2 ^ 54" by simp
  also note two_54_less
  finally have "y < overflow_threshold" .
  with y0 have "\<not> overflow_threshold \<le> \<bar>y\<bar>" by simp
  moreover have "double_round x
      = (if overflow_threshold \<le> \<bar>y\<bar> then (if 0 < x then PosInf else NegInf) else Fin y)"
    using False by (simp only: double_round_def Let_def y_def m_def if_False)
  ultimately have "double_round x = Fin y" by (simp only: if_False)
  with y0 y1 show ?thesis by blast
qed

lemma double_round_nat:
  assumes "n < 2 ^ 53"
  shows "double_round (real n) = Fin (real n)"
proof (cases "n = 0")
  case True
  then show ?thesis by (simp add: double_round_def)
next
  case False
  then have pos: "0 < real n" by simp
  have lt: "real n < 2 ^ 53" using assms by (rule real_less_two_53)
  define e where "e = binade (real n)"
  have e52: "e \<le> 52" unfolding e_def by (rule binade_le_52 [OF pos lt])
  define k where "k = nat (52 - e)"
  have "ulp (real n) = 2 powr real_of_int (e - 52)" by (simp only: ulp_def e_def)
  also have "\<dots> = (if 0 \<le> e - 52 then 2 ^ nat (e - 52) else 1 / 2 ^ nat (- (e - 52)))"
    by (rule two_powr_int)
  also have "\<dots> = 1 / 2 ^ k" using e52 by (auto simp: k_def)
  finally have u: "ulp (real n) = 1 / 2 ^ k" .
  have q: "real n / ulp (real n) = real_of_int (int (n * 2 ^ k))" by (simp add: u)
  have m: "round_even (real n / ulp (real n)) = int (n * 2 ^ k)"
    unfolding q by (rule round_even_int)
  have y: "real_of_int (round_even (real n / ulp (real n))) * ulp (real n) = real n"
    unfolding m by (simp add: u)
  have "real n < 2 ^ 54" using lt by simp
  with two_54_less have "\<not> overflow_threshold \<le> \<bar>real n\<bar>" by simp
  then show ?thesis using False by (simp add: double_round_def Let_def y)
qed

lemma binade_ge: "- 1022 \<le> binade x"
  by (simp add: binade_def)

lemma abs_less_binade:
  assumes "x \<noteq> 0"
  shows "\<bar>x\<bar> < 2 powr real_of_int (binade x + 1)"
proof -
  have "log 2 \<bar>x\<bar> < real_of_int (\<lfloor>log 2 \<bar>x\<bar>\<rfloor> + 1)" by linarith
  also have "\<dots> \<le> real_of_int (binade x + 1)" by (simp add: binade_def)
  finally have "log 2 \<bar>x\<bar> < real_of_int (binade x + 1)" .
  moreover have "0 < \<bar>x\<bar>" using assms by simp
  ultimately show ?thesis by (simp only: log_less_iff [of 2, simplified])
qed

lemma binade_le:
  assumes "y \<noteq> 0" and "\<bar>y\<bar> < 2 powr real_of_int (e + 1)" and "- 1022 \<le> e"
  shows "binade y \<le> e"
proof -
  have "0 < \<bar>y\<bar>" using assms(1) by simp
  then have "log 2 \<bar>y\<bar> < real_of_int (e + 1)"
    using assms(2) by (simp only: log_less_iff [of 2, simplified])
  then have "\<lfloor>log 2 \<bar>y\<bar>\<rfloor> < e + 1" by (simp only: floor_less_iff)
  then show ?thesis using assms(3) by (simp add: binade_def)
qed

lemma round_even_ge: "q - 1 / 2 \<le> real_of_int (round_even q)"
proof -
  define r where "r = \<lfloor>q\<rfloor>"
  have lt: "q < real_of_int r + 1" unfolding r_def by linarith
  consider "q - real_of_int r < 1 / 2" | "1 / 2 < q - real_of_int r" | "q - real_of_int r = 1 / 2"
    by linarith
  then show ?thesis
  proof cases
    case 1
    then have "round_even q = r" by (simp add: round_even_def r_def)
    with 1 show ?thesis by simp
  next
    case 2
    then have "round_even q = r + 1" by (simp add: round_even_def r_def)
    with lt show ?thesis by simp
  next
    case 3
    then have "round_even q = r \<or> round_even q = r + 1"
      by (simp add: round_even_def r_def Let_def)
    with 3 show ?thesis by auto
  qed
qed

lemma round_even_abs_le:
  assumes "\<bar>q\<bar> < real_of_int k"
  shows "\<bar>round_even q\<bar> \<le> k"
proof -
  have "real_of_int (round_even q) < real_of_int k + 1 / 2"
    using round_even_le [of q] assms by linarith
  then have "real_of_int (round_even q) < real_of_int (k + 1)" by simp
  then have u: "round_even q < k + 1" by (simp only: of_int_less_iff)
  have "real_of_int (- k) - 1 / 2 < real_of_int (round_even q)"
    using round_even_ge [of q] assms by simp
  then have "real_of_int (- k - 1) < real_of_int (round_even q)" by simp
  then have "- k - 1 < round_even q" by (simp only: of_int_less_iff)
  with u show ?thesis by simp
qed

lemma double_round_multiple:
  assumes "y = real_of_int k * ulp y" and "\<bar>y\<bar> < overflow_threshold"
  shows "double_round y = Fin y"
proof (cases "y = 0")
  case True
  then show ?thesis by (simp add: double_round_def)
next
  case False
  have "y / ulp y = real_of_int k * ulp y / ulp y" using assms(1) by simp
  also have "\<dots> = real_of_int k" using ulp_pos [of y] by simp
  finally have "round_even (y / ulp y) = k" by (simp only: round_even_int)
  then have "real_of_int (round_even (y / ulp y)) * ulp y = y" using assms(1) by simp
  then show ?thesis using False assms(2) by (simp add: double_round_def Let_def)
qed

lemma two_powr_diff:
  assumes "e' \<le> e"
  shows "2 powr real_of_int (e - 52) = real_of_int (2 ^ nat (e - e')) * 2 powr real_of_int (e' - 52)"
proof -
  have "real_of_int (e - 52) = real (nat (e - e')) + real_of_int (e' - 52)" using assms by simp
  then have "2 powr real_of_int (e - 52) = 2 powr (real (nat (e - e')) + real_of_int (e' - 52))"
    by (simp only:)
  also have "\<dots> = 2 powr real (nat (e - e')) * 2 powr real_of_int (e' - 52)" by (rule powr_add)
  also have "2 powr real (nat (e - e')) = (2::real) ^ nat (e - e')" by (rule powr_realpow) simp
  finally show ?thesis by simp
qed

lemma binade_two_powr:
  assumes "- 1022 \<le> e" and "\<bar>y\<bar> = 2 powr real_of_int e"
  shows "binade y = e"
proof (rule binade_eq)
  show "y \<noteq> 0" using assms(2) by auto
  show "2 powr real_of_int e \<le> \<bar>y\<bar>" using assms(2) by simp
  show "\<bar>y\<bar> < 2 powr real_of_int (e + 1)" unfolding assms(2) by (rule powr_less_mono) simp_all
  show "- 1022 \<le> e" by (rule assms(1))
qed

lemma double_round_idem:
  assumes "double_round x = Fin y"
  shows "double_round y = Fin y"
proof (cases "x = 0")
  case True
  with assms have "y = 0" by (simp add: double_round_def)
  then show ?thesis by (simp add: double_round_def)
next
  case False
  define e where "e = binade x"
  define u where "u = 2 powr real_of_int (e - 52)"
  define m where "m = round_even (x / u)"
  have ux: "ulp x = u" by (simp add: ulp_def u_def e_def)
  have u0: "0 < u" by (simp add: u_def)
  from assms False have y: "y = real_of_int m * u" and ov: "\<bar>y\<bar> < overflow_threshold"
    by (auto simp: double_round_def Let_def ux m_def split: if_splits)
  have e1022: "- 1022 \<le> e" unfolding e_def by (rule binade_ge)
  have "real_of_int (e + 1) = real_of_int (e - 52) + real (53::nat)" by simp
  then have "2 powr real_of_int (e + 1) = 2 powr (real_of_int (e - 52) + real (53::nat))"
    by (simp only:)
  also have "\<dots> = u * 2 powr real (53::nat)" unfolding u_def by (rule powr_add)
  also have "2 powr real (53::nat) = (2::real) ^ 53" by (rule powr_realpow) simp
  finally have top: "2 powr real_of_int (e + 1) = u * 2 ^ 53" .
  have "\<bar>x\<bar> < u * 2 ^ 53" using abs_less_binade [OF False] unfolding e_def [symmetric] top .
  then have "\<bar>x / u\<bar> < 2 ^ 53" using u0 by (simp add: field_simps abs_mult)
  then have "\<bar>x / u\<bar> < real_of_int (2 ^ 53)" by simp
  then have mb: "\<bar>m\<bar> \<le> 2 ^ 53" unfolding m_def by (rule round_even_abs_le)
  show ?thesis
  proof (cases "y = 0")
    case True
    then show ?thesis by (simp add: double_round_def)
  next
    case y0: False
    show ?thesis
    proof (cases "\<bar>m\<bar> = 2 ^ 53")
      case True
      have "\<bar>y\<bar> = real_of_int \<bar>m\<bar> * u" unfolding y using u0 by (simp add: abs_mult)
      also have "\<dots> = 2 powr real_of_int (e + 1)" unfolding True top by simp
      finally have ay: "\<bar>y\<bar> = 2 powr real_of_int (e + 1)" .
      have "binade y = e + 1" using e1022 ay by (intro binade_two_powr) simp_all
      then have "ulp y = 2 powr real_of_int (e + 1 - 52)" by (simp add: ulp_def)
      also have "\<dots> = real_of_int (2 ^ nat (e + 1 - e)) * 2 powr real_of_int (e - 52)"
        by (rule two_powr_diff) simp
      finally have uy: "ulp y = 2 * u" by (simp add: u_def)
      have "even \<bar>m\<bar>" unfolding True by simp
      then have "even m" by simp
      then obtain k where k: "m = 2 * k" by (elim evenE)
      have "real_of_int m * u = real_of_int k * (2 * u)" using k by simp
      also have "2 * u = ulp y" by (simp only: uy)
      finally have "y = real_of_int k * ulp y" unfolding y [symmetric] .
      then show ?thesis using ov by (rule double_round_multiple)
    next
      case False
      with mb have "\<bar>m\<bar> < 2 ^ 53" by simp
      then have "real_of_int \<bar>m\<bar> < real_of_int (2 ^ 53)" by (simp only: of_int_less_iff)
      then have "real_of_int \<bar>m\<bar> * u < 2 ^ 53 * u" using u0 by simp
      moreover have "\<bar>y\<bar> = real_of_int \<bar>m\<bar> * u" unfolding y using u0 by (simp add: abs_mult)
      ultimately have "\<bar>y\<bar> < 2 powr real_of_int (e + 1)" unfolding top by (simp add: mult.commute)
      with y0 have le: "binade y \<le> e" using e1022 by (rule binade_le)
      have "u = real_of_int (2 ^ nat (e - binade y)) * 2 powr real_of_int (binade y - 52)"
        unfolding u_def using le by (rule two_powr_diff)
      then have "u = real_of_int (2 ^ nat (e - binade y)) * ulp y" by (simp add: ulp_def)
      then have "y = real_of_int m * (real_of_int (2 ^ nat (e - binade y)) * ulp y)"
        using y by simp
      then have "y = real_of_int (m * 2 ^ nat (e - binade y)) * ulp y" by simp
      then show ?thesis using ov by (rule double_round_multiple)
    qed
  qed
qed

lemma double_round_0: "double_round 0 = Fin 0"
  by (simp add: double_round_def)

lemma double_round_nonneg:
  assumes "0 \<le> x" and "double_round x = Fin v"
  shows "0 \<le> v"
proof (cases "x = 0")
  case True
  with assms(2) show ?thesis by (simp add: double_round_def)
next
  case False
  have "0 \<le> x / ulp x" using assms(1) ulp_pos [of x] by simp
  then have "0 \<le> round_even (x / ulp x)" by (rule round_even_nonneg)
  then have "0 \<le> real_of_int (round_even (x / ulp x)) * ulp x" using ulp_pos [of x] by simp
  with assms(2) False show ?thesis by (auto simp: double_round_def Let_def split: if_splits)
qed

lemma floor_le_round_even: "\<lfloor>q\<rfloor> \<le> round_even q"
  by (simp add: round_even_def Let_def)

lemma round_even_le_floor: "round_even q \<le> \<lfloor>q\<rfloor> + 1"
  by (simp add: round_even_def Let_def)

lemma ulp_inverse_power:
  assumes "0 < x" and "x < 2 ^ 53"
  shows "\<exists>j. ulp x = 1 / 2 ^ j"
proof -
  define e where "e = binade x"
  have e52: "e \<le> 52" unfolding e_def by (rule binade_le_52 [OF assms])
  have "ulp x = 2 powr real_of_int (e - 52)" by (simp only: ulp_def e_def)
  also have "\<dots> = (if 0 \<le> e - 52 then 2 ^ nat (e - 52) else 1 / 2 ^ nat (- (e - 52)))"
    by (rule two_powr_int)
  also have "\<dots> = 1 / 2 ^ nat (52 - e)" using e52 by auto
  finally show ?thesis by blast
qed

lemma double_round_floor:
  assumes "0 \<le> x" and "x < 2 ^ 53" and "double_round x = Fin v"
  shows "\<lfloor>x\<rfloor> \<le> \<lfloor>v\<rfloor> \<and> \<lfloor>v\<rfloor> \<le> \<lfloor>x\<rfloor> + 1"
proof (cases "x = 0")
  case True
  with assms(3) show ?thesis by (simp add: double_round_def)
next
  case False
  with assms(1) have pos: "0 < x" by simp
  obtain j where u: "ulp x = 1 / 2 ^ j" using ulp_inverse_power [OF pos assms(2)] by blast
  define q where "q = x * 2 ^ j"
  define m where "m = round_even q"
  define k where "k = \<lfloor>x\<rfloor>"
  have qu: "x / ulp x = q" by (simp add: u q_def)
  from assms(3) False have v: "v = real_of_int m / 2 ^ j"
    by (auto simp: double_round_def Let_def qu m_def split: if_splits) (simp add: u)
  have "real_of_int k \<le> x" unfolding k_def by simp
  then have "real_of_int k * 2 ^ j \<le> q" unfolding q_def by simp
  then have "real_of_int (k * 2 ^ j) \<le> q" by simp
  then have "k * 2 ^ j \<le> \<lfloor>q\<rfloor>" by (simp only: le_floor_iff)
  also have "\<dots> \<le> m" unfolding m_def by (rule floor_le_round_even)
  finally have "real_of_int (k * 2 ^ j) \<le> real_of_int m" by (simp only: of_int_le_iff)
  then have "real_of_int k \<le> v" unfolding v by (simp add: field_simps)
  then have lo: "k \<le> \<lfloor>v\<rfloor>" by (simp only: le_floor_iff)
  have "x < real_of_int (k + 1)" unfolding k_def by linarith
  then have "q < real_of_int (k + 1) * 2 ^ j" unfolding q_def by simp
  then have "q < real_of_int ((k + 1) * 2 ^ j)" by simp
  then have "\<lfloor>q\<rfloor> < (k + 1) * 2 ^ j" by (simp only: floor_less_iff)
  with round_even_le_floor [of q] have "m \<le> (k + 1) * 2 ^ j" unfolding m_def by simp
  then have "real_of_int m \<le> real_of_int ((k + 1) * 2 ^ j)" by (simp only: of_int_le_iff)
  then have "v \<le> real_of_int (k + 1)" unfolding v by (simp add: field_simps)
  then have "\<lfloor>v\<rfloor> \<le> k + 1" by (simp only: floor_le_iff)
  with lo show ?thesis by (simp add: k_def)
qed

lemma ulp_eval:
  assumes "2 ^ a \<le> \<bar>x\<bar> * 2 ^ b" and "\<bar>x\<bar> * 2 ^ b < 2 * 2 ^ a" and "- 1022 \<le> int a - int b"
  shows "ulp x = 2 ^ a / 2 ^ (b + 52)"
proof -
  have p: "2 powr real_of_int (int a - int b) = (2::real) ^ a / 2 ^ b"
    by (simp add: powr_diff powr_realpow)
  have "2 powr real_of_int (int a - int b + 1) = 2 powr (real_of_int (int a - int b) + 1)"
    by simp
  also have "\<dots> = 2 powr real_of_int (int a - int b) * 2 powr 1" by (rule powr_add)
  finally have q: "2 powr real_of_int (int a - int b + 1) = 2 * 2 ^ a / 2 ^ b"
    unfolding p by simp
  have "0 < \<bar>x\<bar> * 2 ^ b" using assms(1) by (rule less_le_trans [rotated]) simp
  then have x0: "x \<noteq> 0" by auto
  have "binade x = int a - int b"
  proof (rule binade_eq [OF x0])
    show "2 powr real_of_int (int a - int b) \<le> \<bar>x\<bar>"
      unfolding p using assms(1) by (simp add: field_simps)
    show "\<bar>x\<bar> < 2 powr real_of_int (int a - int b + 1)"
      unfolding q using assms(2) by (simp add: field_simps)
    show "- 1022 \<le> int a - int b" by (rule assms(3))
  qed
  then have "real_of_int (binade x - 52) = real a - real (b + 52)" by simp
  then have "ulp x = 2 powr (real a - real (b + 52))" by (simp only: ulp_def)
  also have "\<dots> = 2 powr real a / 2 powr real (b + 52)" by (rule powr_diff)
  also have "\<dots> = 2 ^ a / 2 ^ (b + 52)" by (simp only: powr_realpow zero_less_numeral)
  finally show ?thesis .
qed

lemma ulp_subnormal:
  assumes "x \<noteq> 0" and "\<bar>x\<bar> * 2 ^ 1022 < 1"
  shows "ulp x = 1 / 2 ^ 1074"
proof -
  have "2 powr real_of_int (- 1022) = 1 / 2 ^ nat 1022"
    using two_powr_int [of "- 1022"] by simp
  then have p: "2 powr real_of_int (- 1022) = 1 / 2 ^ 1022" by simp
  have "\<bar>x\<bar> < 2 powr real_of_int (- 1022)" unfolding p using assms(2) by (simp add: field_simps)
  moreover have "0 < \<bar>x\<bar>" using assms(1) by simp
  ultimately have "log 2 \<bar>x\<bar> < real_of_int (- 1022)"
    by (simp only: log_less_iff [of 2, simplified])
  then have "\<lfloor>log 2 \<bar>x\<bar>\<rfloor> < - 1022" by (simp only: floor_less_iff)
  then have "binade x = - 1022" by (simp add: binade_def)
  then have "ulp x = 2 powr real_of_int (- 1074)" by (simp add: ulp_def)
  also have "\<dots> = 1 / 2 ^ nat 1074" using two_powr_int [of "- 1074"] by simp
  finally show ?thesis by simp
qed

lemma double_sub_zero: "double_sub (double_round v) (Fin 0) = double_round v"
proof (cases "double_round v")
  case (Fin y)
  then have "double_round y = Fin y" by (rule double_round_idem)
  with Fin show ?thesis by (simp add: double_sub_def)
qed (simp_all add: double_sub_def)

lemma double_round_1: "double_round 1 = Fin 1"
  using double_round_nat [of 1] by simp

lemma double_div_self:
  "double_div p p = (if finite_nonzero p then Fin 1 else NaN)"
  by (cases p) (simp_all add: double_div_def double_round_1)

lemma double_round_normal:
  assumes "2 ^ a \<le> \<bar>x\<bar> * 2 ^ b" and "\<bar>x\<bar> * 2 ^ b < 2 * 2 ^ a" and "- 1022 \<le> int a - int b"
  shows "double_round x =
           (let y = real_of_int (round_even (x * 2 ^ (b + 52) / 2 ^ a)) * 2 ^ a / 2 ^ (b + 52)
            in if overflow_threshold \<le> \<bar>y\<bar> then (if 0 < x then PosInf else NegInf) else Fin y)"
proof -
  have u: "ulp x = 2 ^ a / 2 ^ (b + 52)" using assms by (rule ulp_eval)
  have "0 < \<bar>x\<bar> * 2 ^ b" using assms(1) by (rule less_le_trans [rotated]) simp
  then have "x \<noteq> 0" by auto
  then show ?thesis by (simp add: double_round_def u Let_def)
qed

lemma double_round_subnormal:
  assumes "x \<noteq> 0" and "\<bar>x\<bar> * 2 ^ 1022 < 1"
  shows "double_round x =
           (let y = real_of_int (round_even (x * 2 ^ 1074)) / 2 ^ 1074
            in if overflow_threshold \<le> \<bar>y\<bar> then (if 0 < x then PosInf else NegInf) else Fin y)"
proof -
  have u: "ulp x = 1 / 2 ^ 1074" using assms by (rule ulp_subnormal)
  show ?thesis using assms(1) by (simp add: double_round_def u Let_def)
qed

subsection \<open>Metric functions\<close>

lemma vector_norm_2_zero: "set c \<subseteq> {0} \<Longrightarrow> vector_norm (Ord 2) c = Inr 0"
  by (simp add: vector_norm_def sum_squares_zero)

lemma map2_double_sub_zero:
  "length r = d \<Longrightarrow>
   map2 double_sub (map double_round r) (replicate d (Fin 0)) = map double_round r"
proof (induction r arbitrary: d)
  case Nil
  then show ?case by simp
next
  case (Cons v r)
  then obtain d' where d: "d = Suc d'" and "length r = d'" by (cases d) auto
  with Cons.IH [of d'] show ?case by (simp add: double_sub_zero)
qed

lemma snr_sample_zero:
  assumes "length r = d"
  shows "snr_sample mean \<lparr>shape = [d], data = r\<rparr> \<lparr>shape = [d], data = replicate d 0\<rparr>
           = Inr (if finite_nonzero (mean (map (\<lambda>v. double_mul v v) (map double_round r)))
                  then Fin 1 else NaN)"
proof -
  have z: "map double_round (replicate d 0) = replicate d (Fin 0)"
    by (simp add: double_round_0)
  have s: "map2 double_sub (map double_round r) (replicate d (Fin 0)) = map double_round r"
    using assms by (rule map2_double_sub_zero)
  show ?thesis
    by (simp only: snr_sample_def asarray_float_def Let_def ndarray.simps z s double_div_self)
      (simp add: ndim_def)
qed

lemma int_list_PyInt: "int_list a = Inr vs \<Longrightarrow> \<forall>v\<in>set vs. \<exists>i. v = PyInt i"
proof -
  assume a: "int_list a = Inr vs"
  then obtain rs where "rows a = Inr rs" and t: "traverse int_of_entry rs = Inr vs"
    by (auto simp: int_list_def bind_def split: sum.splits)
  from traverse_range [OF t] have "\<forall>v\<in>set vs. \<exists>r\<in>set rs. int_of_entry r = Inr v" by simp
  then show ?thesis
    by (fastforce simp: int_of_entry_def split: list.splits)
qed

lemma categorical_accuracy_PyInt:
  assumes "categorical_accuracy y y_pred = Inr vs"
  shows "\<forall>v\<in>set vs. \<exists>i. v = PyInt i"
  using assms int_list_PyInt
  by (auto simp: categorical_accuracy_def Let_def bind_def int_of_entry_def
      split: if_splits sum.splits list.splits)

lemma ca_101: "categorical_accuracy (vec [1, 0, 1]) (vec [1, 1, 1]) = Inr [PyInt 1, PyInt 0, PyInt 1]"
  by (simp add: categorical_accuracy_def vec_def ndim_def np_eq_def int_list_def rows_def bind_def
      int_of_entry_def numeral_eq_Suc)

subsection \<open>Metric lists\<close>

lemma init_values: "MetricList_init name f = Inr m \<Longrightarrow> metric_values m = []"
  by (auto simp: MetricList_init_def split: function_arg.splits option.splits)

lemma mean_nil:
  "metric_values m = [] \<Longrightarrow> MetricList_mean m = Inl (ZeroDivisionError ''division by zero'')"
  by (simp add: MetricList_mean_def bind_def py_truediv_def)

lemma traverse_py_float_PyInt:
  "\<forall>v\<in>set vs. \<exists>i. v = PyInt i \<Longrightarrow> \<exists>fs. traverse py_float vs = Inr fs \<and> length fs = length vs"
  by (induction vs) auto

lemma mean_PyInt:
  assumes "\<forall>v\<in>set vs. \<exists>i. v = PyInt i" and "vs \<noteq> []" and "metric_values m = vs"
  shows "\<exists>f. MetricList_mean m = Inr f"
proof -
  from traverse_py_float_PyInt [OF assms(1)] obtain fs where "traverse py_float vs = Inr fs" by blast
  then show ?thesis using assms(2,3) by (simp add: MetricList_mean_def bind_def py_truediv_def)
qed

subsection \<open>The ledger\<close>

lemma dd_iadd_other:
  "k' \<noteq> k \<Longrightarrow> map_of (fst (dd_iadd e k v)) k' = map_of e k'"
  by (auto simp: dd_iadd_def Let_def update_conv' map_add_def split: option.splits sum.splits)

lemma dd_iadd_ok:
  assumes "py_add (case map_of e k of None \<Rightarrow> PyInt 0 | Some w \<Rightarrow> w) v = Inr w"
  shows "snd (dd_iadd e k v) = None \<and> map_of (fst (dd_iadd e k v)) k = Some w"
  using assms by (auto simp: dd_iadd_def Let_def update_conv' split: option.splits)

lemma py_add_time:
  "py_float old = Inr (Fin t) \<Longrightarrow> py_add old (PyFloat (Fin e)) = Inr (PyFloat (Fin (t + e)))"
  by (cases old) auto

lemma ledger_field_update:
  "ledger_field (AList.update name entry d) name k
     = (case map_of entry k of None \<Rightarrow> PyInt 0 | Some v \<Rightarrow> v)"
  by (simp add: ledger_field_def update_conv')

lemma resource_context_exit_ledger:
  assumes p: "p \<in> set profiler_types"
    and c: "ledger_field d name ''execution_count'' = PyInt c"
    and t: "py_float (ledger_field d name ''total_time'') = Inr (Fin t)"
  shows "\<exists>d' r. resource_context_exit name p (Fin e) stats (Some d) = (Some d', r) \<and>
           ledger_field d' name ''execution_count'' = PyInt (c + 1) \<and>
           ledger_field d' name ''total_time'' = PyFloat (Fin (t + e)) \<and>
           (p = ''Basic'' \<longrightarrow> r = None)"
proof -
  define d1 where "d1 = (if name \<in> fst ` set d then d
                    else d @ [(name, if p = ''Deterministic''
                                     then [(''stats'', PyStr [])] else [])])"
  define c0 where "c0 = (case map_of d1 name of Some c \<Rightarrow> c | None \<Rightarrow> [])"
  define s1 where "s1 = dd_iadd c0 ''execution_count'' (PyInt 1)"
  define s2 where "s2 = dd_iadd (fst s1) ''total_time'' (PyFloat (Fin e))"
  define s3 where "s3 = dd_iadd (fst s2) ''stats'' (PyStr stats)"
  have f0: "(case map_of c0 k of None \<Rightarrow> PyInt 0 | Some v \<Rightarrow> v) = ledger_field d name k"
    if "k \<noteq> ''stats''" for k
  proof (cases "name \<in> fst ` set d")
    case True
    then show ?thesis
      by (auto simp: c0_def d1_def ledger_field_def split: option.splits)
  next
    case False
    then have "map_of d name = None" by (simp add: map_of_eq_None_iff)
    with False that show ?thesis
      by (simp add: c0_def d1_def ledger_field_def map_add_def)
  qed
  have a1: "py_add (case map_of c0 ''execution_count'' of None \<Rightarrow> PyInt 0 | Some w \<Rightarrow> w) (PyInt 1)
              = Inr (PyInt (c + 1))"
    using f0 [of "''execution_count''"] c by simp
  from dd_iadd_ok [OF a1]
  have r1: "snd s1 = None" and m1: "map_of (fst s1) ''execution_count'' = Some (PyInt (c + 1))"
    by (simp_all add: s1_def)
  have o1: "map_of (fst s1) ''total_time'' = map_of c0 ''total_time''"
    unfolding s1_def by (rule dd_iadd_other) simp
  have a2: "py_add (case map_of (fst s1) ''total_time'' of None \<Rightarrow> PyInt 0 | Some w \<Rightarrow> w)
              (PyFloat (Fin e)) = Inr (PyFloat (Fin (t + e)))"
    unfolding o1 using f0 [of "''total_time''"] t by (simp add: py_add_time)
  from dd_iadd_ok [OF a2]
  have r2: "snd s2 = None" and m2: "map_of (fst s2) ''total_time'' = Some (PyFloat (Fin (t + e)))"
    by (simp_all add: s2_def)
  have o2: "map_of (fst s2) ''execution_count'' = Some (PyInt (c + 1))"
    unfolding s2_def using m1 by (subst dd_iadd_other) simp_all
  have o3: "map_of (fst s3) ''execution_count'' = Some (PyInt (c + 1))"
           "map_of (fst s3) ''total_time'' = Some (PyFloat (Fin (t + e)))"
    unfolding s3_def using o2 m2 by (simp_all add: dd_iadd_other)
  have ex: "resource_context_exit name p (Fin e) stats (Some d)
          = (if p = ''Deterministic'' then (Some (AList.update name (fst s3) d1), snd s3)
             else (Some (AList.update name (fst s2) d1), None))"
    using r1 r2
    by (simp add: resource_context_exit_def Let_def case_prod_beta
        d1_def [symmetric] c0_def [symmetric] s1_def [symmetric] s2_def [symmetric]
        s3_def [symmetric])
  show ?thesis
  proof (cases "p = ''Deterministic''")
    case True
    with ex o3 show ?thesis by (simp add: ledger_field_update)
  next
    case False
    with ex o2 m2 show ?thesis by (simp add: ledger_field_update)
  qed
qed

subsection \<open>The selection of indices\<close>

lemma set_where_eq: "set (where_eq y c) = {i. i < length y \<and> y ! i = c}"
  by (auto simp: where_eq_def)

lemma distinct_where_eq: "distinct (where_eq y c)"
  by (simp add: where_eq_def)

lemma where_eq_snoc:
  "where_eq (y @ [a]) c = where_eq y c @ (if a = c then [length y] else [])"
proof -
  have "filter (\<lambda>i. (y @ [a]) ! i = c) [0..<length y] = filter (\<lambda>i. y ! i = c) [0..<length y]"
    by (rule filter_cong) (simp_all add: nth_append)
  then show ?thesis by (simp add: where_eq_def)
qed

lemma length_where_eq: "length (where_eq y c) = count_list y c"
proof (induction y rule: rev_induct)
  case Nil
  then show ?case by (simp add: where_eq_def)
next
  case (snoc a y)
  then show ?case by (simp add: where_eq_snoc)
qed

lemma le_fold_max: "l \<in> set y \<Longrightarrow> l \<le> fold max y (a::int)"
proof -
  assume "l \<in> set y"
  then have "l \<le> Max (set (a # y))" by (intro Max_ge) simp_all
  then show ?thesis by (simp only: Max.set_eq_fold)
qed

lemma py_index_map_upt:
  "0 \<le> i \<Longrightarrow> nat i < m \<Longrightarrow> py_index (map f [0..<m]) i = Inr (f (nat i))"
  by (simp add: py_index_def)

lemma bincount_index:
  assumes "bincount y = Inr counts" and "py_index counts src = Inr tc" and "0 \<le> src"
  shows "tc = count_list y src"
proof -
  from assms(1) have c: "counts = map (\<lambda>k. count_list y (int k))
                  [0..<(if y = [] then 0 else nat (fold max y 0) + 1)]"
    by (simp add: bincount_def split: if_splits)
  from assms(2,3) have "src < int (length counts)" and "tc = counts ! nat src"
    by (auto simp: py_index_def split: if_splits)
  with assms(3) show ?thesis unfolding c by simp
qed

lemma bincount_nonneg:
  assumes "bincount y = Inr counts" and "src < 0"
  shows "where_eq y src = []"
proof -
  from assms(1) have "\<not> list_ex (\<lambda>l. l < 0) y" by (simp add: bincount_def split: if_splits)
  then have "\<forall>l\<in>set y. 0 \<le> l" by (auto simp: list_ex_iff)
  have "\<forall>i<length y. y ! i \<noteq> src"
  proof (intro allI impI)
    fix i assume "i < length y"
    then have "y ! i \<in> set y" by simp
    with \<open>\<forall>l\<in>set y. 0 \<le> l\<close> have "0 \<le> y ! i" by blast
    with assms(2) show "y ! i \<noteq> src" by simp
  qed
  then show ?thesis by (simp add: where_eq_def filter_empty_conv)
qed

lemma length_permutation:
  "distinct p \<Longrightarrow> set p = {..<n} \<Longrightarrow> length p = (n::nat)"
  using distinct_card [of p] by simp

lemma choice_sample:
  assumes "choice a k permutation = Inr sel" and "distinct a"
    and "distinct (permutation (length a))" and "set (permutation (length a)) = {..<length a}"
  shows "distinct sel \<and> set sel \<subseteq> set a \<and> int (length sel) = k"
proof -
  let ?p = "take (nat k) (permutation (length a))"
  from assms(1) have k: "0 \<le> k" "k \<le> int (length a)" and sel: "sel = map (\<lambda>i. a ! i) ?p"
    by (auto simp: choice_def split: if_splits)
  have lp: "length (permutation (length a)) = length a"
    using assms(3,4) by (rule length_permutation)
  have in_range: "\<forall>i\<in>set ?p. i < length a"
    using assms(4) set_take_subset [of "nat k" "permutation (length a)"] by auto
  have "distinct ?p" using assms(3) by simp
  moreover have "inj_on (\<lambda>i. a ! i) (set ?p)"
    using assms(2) in_range by (rule inj_on_nth)
  ultimately have "distinct sel" unfolding sel by (simp add: distinct_map)
  moreover have "set sel \<subseteq> set a" unfolding sel using in_range by auto
  moreover have "int (length sel) = k" unfolding sel using k lp by simp
  ultimately show ?thesis by simp
qed

subsection \<open>The scoring of the classifier\<close>

lemma init_categorical_accuracy:
  "MetricList_init ''categorical_accuracy'' FNone
     = Inr \<lparr>metric_name = ''categorical_accuracy'', metric_function = categorical_accuracy,
            metric_values = []\<rparr>"
  by (simp add: MetricList_init_def SUPPORTED_METRICS_def)

lemma poisoned_loops_clean:
  assumes "\<not> poison_dataset_flag" and "attack_type \<noteq> Some ''preloaded''"
  shows "poisoned_loops predict attack src_class tgt_class attack_type poison_dataset_flag
           test_data test_data_poison
         = Inr (\<lparr>metric_name = ''categorical_accuracy'', metric_function = categorical_accuracy,
                  metric_values = []\<rparr>,
                \<lparr>metric_name = ''categorical_accuracy'', metric_function = categorical_accuracy,
                  metric_values = []\<rparr>)"
  using assms by (simp add: poisoned_loops_def init_categorical_accuracy bind_def)

section \<open>The ledger after a profiled region\<close>

text \<open>
  Claim C1 says that the ledger entry of a region is updated on every exit path,
  also when the body raises. The generator has no exception handler around its
  \<open>yield\<close>: an exception of the body ends it there, and the code that updates the
  ledger does not run. Below the body raises in a region with the \<open>Basic\<close> profiler
  and the ledger stays empty.
\<close>

theorem resource_context_error_exit_counterexample:
  "resource_context ''fit'' (Some ''Basic'') (Some []) 1 3 []
       (\<lambda>d. (d, Some (ValueError ''raised inside the region'')))
     = (Some [], Some (ValueError ''raised inside the region'')) \<and>
   ledger_field [] ''fit'' ''execution_count'' = PyInt 0"
  by (simp add: resource_context_def profiler_types_def ledger_field_def)

text \<open>
  Claim C1, amended: for a region entered with profiler \<open>Basic\<close> or \<open>Deterministic\<close>
  whose body ends without raising, the ledger entry of the region's name has its
  \<open>execution_count\<close> incremented by 1 and its \<open>total_time\<close> increased by the elapsed
  time. The entry holds an integer count and a finite time, as the function writes
  them; a missing entry or field counts as \<open>0\<close>.
\<close>

theorem resource_context_ledger:
  assumes "p \<in> set profiler_types"
    and "body crd = (Some d, None)"
    and "ledger_field d name ''execution_count'' = PyInt c"
    and "py_float (ledger_field d name ''total_time'') = Inr (Fin t)"
  shows "\<exists>d' r. resource_context name (Some p) crd startTime endTime stats body = (Some d', r) \<and>
           ledger_field d' name ''execution_count'' = PyInt (c + 1) \<and>
           ledger_field d' name ''total_time'' = PyFloat (Fin (t + (endTime - startTime))) \<and>
           (p = ''Basic'' \<longrightarrow> r = None)"
proof -
  have "resource_context name (Some p) crd startTime endTime stats body
          = resource_context_exit name p (Fin (endTime - startTime)) stats (Some d)"
    using assms(1,2) by (simp add: resource_context_def)
  with resource_context_exit_ledger [OF assms(1,3,4), of "endTime - startTime" stats]
  show ?thesis by simp
qed

theorem resource_context_ledger_witness:
  "''Basic'' \<in> set profiler_types \<and>
   (\<lambda>d. (d, None)) (Some [(''fit'', [(''execution_count'', PyInt 4), (''total_time'', PyFloat (Fin 7))])])
     = (Some [(''fit'', [(''execution_count'', PyInt 4), (''total_time'', PyFloat (Fin 7))])],
        None :: error option) \<and>
   ledger_field [(''fit'', [(''execution_count'', PyInt 4), (''total_time'', PyFloat (Fin 7))])]
      ''fit'' ''execution_count'' = PyInt 4 \<and>
   py_float (ledger_field [(''fit'', [(''execution_count'', PyInt 4), (''total_time'', PyFloat (Fin 7))])]
      ''fit'' ''total_time'') = Inr (Fin 7) \<and>
   resource_context ''fit'' (Some ''Basic'')
      (Some [(''fit'', [(''execution_count'', PyInt 4), (''total_time'', PyFloat (Fin 7))])])
      1 3 [] (\<lambda>d. (d, None))
     = (Some [(''fit'', [(''execution_count'', PyInt 5), (''total_time'', PyFloat (Fin 9))])], None) \<and>
   ledger_field [(''fit'', [(''execution_count'', PyInt 5), (''total_time'', PyFloat (Fin 9))])]
      ''fit'' ''execution_count'' = PyInt 5 \<and>
   ledger_field [(''fit'', [(''execution_count'', PyInt 5), (''total_time'', PyFloat (Fin 9))])]
      ''fit'' ''total_time'' = PyFloat (Fin 9)"
proof -
  let ?d = "[(''fit'', [(''execution_count'', PyInt 4), (''total_time'', PyFloat (Fin 7))])]"
  let ?body = "\<lambda>d::ledger option. (d, None :: error option)"
  have p: "''Basic'' \<in> set profiler_types" by (simp add: profiler_types_def)
  have b: "?body (Some ?d) = (Some ?d, None)" by simp
  have c: "ledger_field ?d ''fit'' ''execution_count'' = PyInt 4" by (simp add: ledger_field_def)
  have t: "py_float (ledger_field ?d ''fit'' ''total_time'') = Inr (Fin 7)"
    by (simp add: ledger_field_def)
  have e: "resource_context ''fit'' (Some ''Basic'') (Some ?d) 1 3 [] ?body
     = (Some [(''fit'', [(''execution_count'', PyInt 5), (''total_time'', PyFloat (Fin 9))])], None)"
    by (simp add: resource_context_def profiler_types_def resource_context_exit_def dd_iadd_def)
  from resource_context_ledger [where body = ?body and crd = "Some ?d" and startTime = 1
      and endTime = 3 and stats = "[]", OF p _ c t] e
  have "ledger_field [(''fit'', [(''execution_count'', PyInt 5), (''total_time'', PyFloat (Fin 9))])]
          ''fit'' ''execution_count'' = PyInt 5 \<and>
        ledger_field [(''fit'', [(''execution_count'', PyInt 5), (''total_time'', PyFloat (Fin 9))])]
          ''fit'' ''total_time'' = PyFloat (Fin 9)"
    by simp
  with p b c t e show ?thesis by simp
qed

section \<open>Poisoning a training set\<close>

text \<open>
  Claim C2: for a training set of \<open>ds_size\<close> samples, an attack that returns the target
  label it is given, and poisoned indices drawn from the indices labelled \<open>src\<close>,
  \<open>poison_dataset\<close> returns a data set of the same size in which every sample outside
  \<open>poisoned_indices\<close> is unchanged (same input, same label) and every sample inside is
  the attack-poisoned input (poisoned channels first, then transposed back) with
  label \<open>tgt\<close>.
\<close>

theorem poison_dataset_frame:
  assumes "length src_imgs = ds_size" and "length src_lbls = ds_size"
    and "\<forall>img. snd (attack img tgt) = tgt"
    and "set poisoned_indices \<subseteq> {i. i < ds_size \<and> src_lbls ! i = src}"
  shows "\<exists>poison_x poison_y.
           poison_dataset src_imgs src_lbls src tgt ds_size attack poisoned_indices
             = Inr (poison_x, poison_y) \<and>
           length poison_x = ds_size \<and> length poison_y = ds_size \<and>
           (\<forall>i<ds_size.
              (i \<notin> set poisoned_indices \<longrightarrow>
                 poison_x ! i = src_imgs ! i \<and> poison_y ! i = src_lbls ! i) \<and>
              (i \<in> set poisoned_indices \<longrightarrow>
                 poison_x ! i = transpose_120 (fst (attack (transpose_201 (src_imgs ! i)) tgt)) \<and>
                 poison_y ! i = tgt))"
proof -
  let ?g = "\<lambda>i. if i \<in> set poisoned_indices
                then (transpose_120 (fst (attack (transpose_201 (src_imgs ! i)) tgt)), tgt)
                else (src_imgs ! i, src_lbls ! i)"
  have "traverse (poison_sample src_imgs src_lbls src tgt attack poisoned_indices) [0..<ds_size]
          = Inr (map ?g [0..<ds_size])"
  proof (rule traverse_map [where g = ?g])
    fix i assume "i \<in> set [0..<ds_size]"
    then have i: "i < ds_size" by simp
    show "poison_sample src_imgs src_lbls src tgt attack poisoned_indices i = Inr (?g i)"
    proof (cases "i \<in> set poisoned_indices")
      case True
      with assms(4) have "src_lbls ! i = src" by auto
      with True i assms(1,2,3) show ?thesis
        by (simp add: poison_sample_def Let_def case_prod_beta prod_eq_iff)
    next
      case False
      with i assms(1,2) show ?thesis by (simp add: poison_sample_def)
    qed
  qed
  then have "poison_dataset src_imgs src_lbls src tgt ds_size attack poisoned_indices
               = Inr (map fst (map ?g [0..<ds_size]), map snd (map ?g [0..<ds_size]))"
    by (simp add: poison_dataset_def bind_def)
  then show ?thesis by simp
qed

theorem poison_dataset_frame_witness:
  "length [ [ [ [1::nat] ] ], [ [ [2] ] ], [ [ [3] ] ] ] = 3 \<and> length [7, 5, 7::int] = 3 \<and>
   (\<forall>img. snd ((\<lambda>img t. (map (map (map Suc)) img, t)) img (9::int)) = 9) \<and>
   set [2::nat] \<subseteq> {i. i < 3 \<and> [7, 5, 7::int] ! i = 7} \<and>
   poison_dataset [ [ [ [1] ] ], [ [ [2] ] ], [ [ [3] ] ] ] [7, 5, 7] 7 9 3
      (\<lambda>img t. (map (map (map Suc)) img, t)) [2]
     = Inr ([ [ [ [1] ] ], [ [ [2] ] ], [ [ [4] ] ] ], [7, 5, 9])"
proof -
  let ?attack = "\<lambda>(img::nat image) (t::int). (map (map (map Suc)) img, t)"
  have h1: "length [ [ [ [1::nat] ] ], [ [ [2] ] ], [ [ [3] ] ] ] = 3" by simp
  have h2: "length [7, 5, 7::int] = 3" by simp
  have h3: "\<forall>img. snd (?attack img 9) = 9" by simp
  have h4: "set [2::nat] \<subseteq> {i. i < 3 \<and> [7, 5, 7::int] ! i = 7}" by simp
  from poison_dataset_frame [where attack = ?attack and tgt = 9 and src = 7, OF h1 h2 _ h4] h3
  obtain px py where r: "poison_dataset [ [ [ [1] ] ], [ [ [2] ] ], [ [ [3] ] ] ] [7, 5, 7] 7 9 3 ?attack [2]
             = Inr (px, py)"
    and l: "length px = 3" "length py = 3"
    and a: "\<forall>i<3. (i \<notin> set [2::nat] \<longrightarrow> px ! i = [ [ [ [1] ] ], [ [ [2] ] ], [ [ [3] ] ] ] ! i \<and> py ! i = [7, 5, 7] ! i) \<and>
              (i \<in> set [2::nat] \<longrightarrow>
               px ! i = transpose_120 (fst (?attack (transpose_201 ([ [ [ [1] ] ], [ [ [2] ] ], [ [ [3] ] ] ] ! i)) 9)) \<and>
               py ! i = 9)"
    by blast
  have e: "poison_dataset [ [ [ [1] ] ], [ [ [2] ] ], [ [ [3] ] ] ] [7, 5, 7] 7 9 3 ?attack [2]
     = Inr ([ [ [ [1] ] ], [ [ [2] ] ], [ [ [4] ] ] ], [7, 5, 9])"
    by (simp add: poison_dataset_def poison_sample_def bind_def upt_conv_Cons
        transpose_201_def transpose_120_def)
  with r h1 h2 h3 h4 show ?thesis by simp
qed

section \<open>The choice of the indices to poison\<close>

text \<open>
  Claim C3 says that the selected indices number exactly
  \<open>floor(fraction_poisoned * count(label == source_class))\<close>. The program takes
  \<open>int\<close> of the float64 product, and the product is rounded: for ten labels of the
  source class and the double nearest to \<open>0.7\<close>, which is
  \<open>6305039478318694 / 9007199254740992\<close> and less than \<open>0.7\<close>, the exact product is
  less than \<open>7\<close> and its floor is \<open>6\<close>, while the float64 product is \<open>7.0\<close> and seven
  indices are selected.
\<close>

theorem select_poisoned_indices_floor_counterexample:
  "double_round (6305039478318694 / 9007199254740992) = Fin (6305039478318694 / 9007199254740992) \<and>
   (0::real) \<le> 6305039478318694 / 9007199254740992 \<and>
   (6305039478318694::real) / 9007199254740992 \<le> 1 \<and>
   select_poisoned_indices [3, 3, 3, 3, 3, 3, 3, 3, 3, 3] 3
     (Fin (6305039478318694 / 9007199254740992)) (\<lambda>n. [0..<n]) = Inr [0, 1, 2, 3, 4, 5, 6] \<and>
   \<lfloor>6305039478318694 / 9007199254740992 * real (count_list [3, 3, 3, 3, 3, 3, 3, 3, 3, 3::int] 3)\<rfloor> = 6 \<and>
   int (length [0, 1, 2, 3, 4, 5, 6::nat]) \<noteq> 6"
proof -
  have f: "double_round (6305039478318694 / 9007199254740992)
             = Fin (6305039478318694 / 9007199254740992)"
    by (rule trans [OF double_round_normal [where a = 0 and b = 1]])
      (simp_all add: round_even_def overflow_threshold_def)
  have n: "double_round (real (10::nat)) = Fin (real (10::nat))"
    by (rule double_round_nat) simp
  have p: "double_round (6305039478318694 / 9007199254740992 * 10) = Fin 7"
    by (rule trans [OF double_round_normal [where a = 2 and b = 0]])
      (simp_all add: round_even_def overflow_threshold_def)
  have e1: "double_mul (Fin (6305039478318694 / 9007199254740992)) (double_round (real (10::nat)))
              = double_round (6305039478318694 / 9007199254740992 * real (10::nat))"
    by (simp only: n double_mul_def fl_mul.simps fl_round.simps)
  have e2: "(6305039478318694::real) / 9007199254740992 * real (10::nat)
              = 6305039478318694 / 9007199254740992 * 10" by simp
  have i: "py_int (double_mul (Fin (6305039478318694 / 9007199254740992))
                    (double_round (real (10::nat)))) = Inr 7"
    by (simp only: e1 e2 p) simp
  have b: "bincount [3, 3, 3, 3, 3, 3, 3, 3, 3, 3] = Inr [0, 0, 0, 10]"
    by (simp add: bincount_def upt_conv_Cons)
  have x: "py_index [0, 0, 0, 10::nat] 3 = Inr 10" by (simp add: py_index_def)
  have c: "choice (where_eq [3, 3, 3, 3, 3, 3, 3, 3, 3, 3] 3) 7 (\<lambda>n. [0..<n])
             = Inr [0, 1, 2, 3, 4, 5, 6]"
    by (simp add: where_eq_def choice_def upt_conv_Cons)
  have s: "select_poisoned_indices [3, 3, 3, 3, 3, 3, 3, 3, 3, 3] 3
             (Fin (6305039478318694 / 9007199254740992)) (\<lambda>n. [0..<n]) = Inr [0, 1, 2, 3, 4, 5, 6]"
    by (simp only: select_poisoned_indices_def b bind_def sum.case x i Let_def c)
  have fl: "\<lfloor>6305039478318694 / 9007199254740992
              * real (count_list [3, 3, 3, 3, 3, 3, 3, 3, 3, 3::int] 3)\<rfloor> = 6" by simp
  show ?thesis using f s fl by simp
qed

text \<open>
  Claim C3, amended: for every label array and every \<open>fraction_poisoned\<close> in \<open>[0, 1]\<close>,
  the indices selected in non-preloaded poisoning mode are indices labelled
  \<open>source_class\<close>, contain no index twice, and number exactly the floor of the
  float64 product \<open>fraction_poisoned * count(label == source_class)\<close>, whatever
  permutation the seeded generator draws; for fewer than \<open>2\<close> to the power \<open>53\<close>
  labels this number is the floor of the exact product or one more. The selection
  returns whenever there are fewer than \<open>2\<close> to the power \<open>53\<close> labels, none of them
  negative, and \<open>source_class\<close> lies between \<open>0\<close> and the largest label.
\<close>

theorem select_poisoned_indices_sound:
  assumes "0 \<le> f" and "f \<le> 1"
    and "\<forall>n. distinct (permutation n) \<and> set (permutation n) = {..<n}"
  shows "(\<forall>sel. select_poisoned_indices y src (Fin f) permutation = Inr sel \<longrightarrow>
            distinct sel \<and> set sel \<subseteq> {i. i < length y \<and> y ! i = src} \<and>
            (\<exists>v. double_mul (Fin f) (double_round (real (count_list y src))) = Fin v \<and>
                 int (length sel) = \<lfloor>v\<rfloor>) \<and>
            (length y < 2 ^ 53 \<longrightarrow>
               \<lfloor>f * real (count_list y src)\<rfloor> \<le> int (length sel) \<and>
               int (length sel) \<le> \<lfloor>f * real (count_list y src)\<rfloor> + 1)) \<and>
         (length y < 2 ^ 53 \<and> (\<forall>l\<in>set y. 0 \<le> l) \<and> 0 \<le> src \<and> (\<exists>l\<in>set y. src \<le> l) \<longrightarrow>
            (\<exists>sel. select_poisoned_indices y src (Fin f) permutation = Inr sel))"
proof (rule conjI; intro allI impI)
  fix sel
  assume s: "select_poisoned_indices y src (Fin f) permutation = Inr sel"
  let ?n = "count_list y src"
  from s obtain counts tc k where b: "bincount y = Inr counts"
    and p: "py_index counts src = Inr tc"
    and i: "py_int (double_mul (Fin f) (double_round (real tc))) = Inr k"
    and c: "choice (where_eq y src) k permutation = Inr sel"
    by (auto simp: select_poisoned_indices_def bind_def Let_def split: sum.splits)
  from assms(3) have perm: "distinct (permutation (length (where_eq y src)))"
    "set (permutation (length (where_eq y src))) = {..<length (where_eq y src)}" by simp_all
  from choice_sample [OF c distinct_where_eq perm]
  have d: "distinct sel" and sub: "set sel \<subseteq> set (where_eq y src)"
    and len: "int (length sel) = k" by simp_all
  have v: "\<exists>v. double_mul (Fin f) (double_round (real ?n)) = Fin v \<and> 0 \<le> v \<and>
               int (length sel) = \<lfloor>v\<rfloor>"
  proof (cases "0 \<le> src")
    case True
    with b p have tc: "tc = ?n" by (rule bincount_index)
    from i obtain v where m: "double_mul (Fin f) (double_round (real tc)) = Fin v"
      by (cases "double_mul (Fin f) (double_round (real tc))") simp_all
    have "0 \<le> v"
    proof (cases "double_round (real tc)")
      case (Fin t)
      have "0 \<le> t" using double_round_nonneg [OF _ Fin] by simp
      with assms(1) have "0 \<le> f * t" by simp
      moreover have "double_round (f * t) = Fin v"
        using m by (simp only: Fin double_mul_def fl_mul.simps fl_round.simps)
      ultimately show ?thesis by (rule double_round_nonneg)
    next
      case PosInf
      from m have "fl_round (fl_mul (Fin f) PosInf) = Fin v" by (simp only: PosInf double_mul_def)
      then show ?thesis by (simp split: if_splits)
    next
      case NegInf
      from m have "fl_round (fl_mul (Fin f) NegInf) = Fin v" by (simp only: NegInf double_mul_def)
      then show ?thesis by (simp split: if_splits)
    next
      case NaN
      from m have "fl_round (fl_mul (Fin f) NaN) = Fin v" by (simp only: NaN double_mul_def)
      then show ?thesis by simp
    qed
    with i m len have "int (length sel) = \<lfloor>v\<rfloor>" by simp
    with m \<open>0 \<le> v\<close> show ?thesis unfolding tc by blast
  next
    case False
    then have "where_eq y src = []" using b by (intro bincount_nonneg) simp_all
    with sub have "sel = []" and "?n = 0"
      using length_where_eq [of y src] by simp_all
    then show ?thesis by (simp add: double_mul_def double_round_0)
  qed
  then obtain v where m: "double_mul (Fin f) (double_round (real ?n)) = Fin v"
    and v0: "0 \<le> v" and lv: "int (length sel) = \<lfloor>v\<rfloor>" by blast
  have bound: "\<lfloor>f * real ?n\<rfloor> \<le> int (length sel) \<and> int (length sel) \<le> \<lfloor>f * real ?n\<rfloor> + 1"
    if small: "length y < 2 ^ 53"
  proof -
    have "?n \<le> length y" by (rule count_le_length)
    with small have n53: "?n < 2 ^ 53" by simp
    then have r: "double_round (real ?n) = Fin (real ?n)" by (rule double_round_nat)
    with m have dr: "double_round (f * real ?n) = Fin v" by (simp add: double_mul_def)
    have "f * real ?n \<le> real ?n"
      using assms(2) mult_right_mono [of f 1 "real ?n"] by simp
    also have "real ?n < 2 ^ 53" using n53 by (rule real_less_two_53)
    finally have lt: "f * real ?n < 2 ^ 53" .
    have "0 \<le> f * real ?n" using assms(1) by simp
    from double_round_floor [OF this lt dr] show ?thesis unfolding lv .
  qed
  from d sub m lv bound
  show "distinct sel \<and> set sel \<subseteq> {i. i < length y \<and> y ! i = src} \<and>
          (\<exists>v. double_mul (Fin f) (double_round (real ?n)) = Fin v \<and> int (length sel) = \<lfloor>v\<rfloor>) \<and>
          (length y < 2 ^ 53 \<longrightarrow>
             \<lfloor>f * real ?n\<rfloor> \<le> int (length sel) \<and> int (length sel) \<le> \<lfloor>f * real ?n\<rfloor> + 1)"
    by (simp add: set_where_eq)
next
  assume a: "length y < 2 ^ 53 \<and> (\<forall>l\<in>set y. 0 \<le> l) \<and> 0 \<le> src \<and> (\<exists>l\<in>set y. src \<le> l)"
  then obtain l where l: "l \<in> set y" "src \<le> l" by blast
  define m where "m = nat (fold max y 0) + 1"
  let ?counts = "map (\<lambda>k. count_list y (int k)) [0..<m]"
  let ?n = "count_list y src"
  from l have ne: "y \<noteq> []" by auto
  from a have "\<not> list_ex (\<lambda>l. l < 0) y" by (auto simp: list_ex_iff)
  with ne have b: "bincount y = Inr ?counts" by (simp add: bincount_def m_def)
  from l le_fold_max [of l y 0] have "src \<le> fold max y 0" by simp
  with a have "nat src < m" by (simp add: m_def)
  with a have p: "py_index ?counts src = Inr ?n" by (simp add: py_index_map_upt)
  have "?n \<le> length y" by (rule count_le_length)
  with a have n53: "?n < 2 ^ 53" by simp
  then have r: "double_round (real ?n) = Fin (real ?n)" by (rule double_round_nat)
  have x0: "0 \<le> f * real ?n" using assms(1) by simp
  have xn: "f * real ?n \<le> real ?n"
    using assms(2) mult_right_mono [of f 1 "real ?n"] by simp
  from double_round_bound [OF x0 xn n53]
  obtain v where dr: "double_round (f * real ?n) = Fin v" and v0: "0 \<le> v"
    and vn: "v < real ?n + 1" by blast
  have i: "py_int (double_mul (Fin f) (double_round (real ?n))) = Inr \<lfloor>v\<rfloor>"
    using dr v0 by (simp add: r double_mul_def)
  have k0: "0 \<le> \<lfloor>v\<rfloor>" using v0 by simp
  have "v < real_of_int (int ?n + 1)" using vn by simp
  then have "\<lfloor>v\<rfloor> < int ?n + 1" by (simp only: floor_less_iff)
  then have kn: "\<lfloor>v\<rfloor> \<le> int ?n" by simp
  have z: "\<lfloor>v\<rfloor> = 0" if "?n = 0" using k0 kn unfolding that by linarith
  have "\<not> int ?n < \<lfloor>v\<rfloor>" and "\<not> \<lfloor>v\<rfloor> < 0" using k0 kn by simp_all
  then have "\<exists>sel. choice (where_eq y src) \<lfloor>v\<rfloor> permutation = Inr sel"
    using z by (simp only: choice_def length_where_eq if_False split: if_splits) blast
  then show "\<exists>sel. select_poisoned_indices y src (Fin f) permutation = Inr sel"
    by (simp add: select_poisoned_indices_def bind_def b p i)
qed

theorem select_poisoned_indices_sound_witness:
  "(0::real) \<le> 1 / 2 \<and> (1::real) / 2 \<le> 1 \<and>
   (\<forall>n. distinct (rev [0..<n]) \<and> set (rev [0..<n]) = {..<n}) \<and>
   select_poisoned_indices [3, 1, 3, 3, 0, 3] 3 (Fin (1 / 2)) (\<lambda>n. rev [0..<n]) = Inr [5, 3] \<and>
   distinct [5, 3::nat] \<and>
   set [5, 3::nat] \<subseteq> {i. i < length [3, 1, 3, 3, 0, 3::int] \<and> [3, 1, 3, 3, 0, 3::int] ! i = 3} \<and>
   double_mul (Fin (1 / 2)) (double_round (real (count_list [3, 1, 3, 3, 0, 3::int] 3))) = Fin 2 \<and>
   int (length [5, 3::nat]) = \<lfloor>2::real\<rfloor> \<and>
   length [3, 1, 3, 3, 0, 3::int] < 2 ^ 53 \<and>
   \<lfloor>(1 / 2) * real (count_list [3, 1, 3, 3, 0, 3::int] 3)\<rfloor> \<le> int (length [5, 3::nat]) \<and>
   int (length [5, 3::nat]) \<le> \<lfloor>(1 / 2) * real (count_list [3, 1, 3, 3, 0, 3::int] 3)\<rfloor> + 1"
proof -
  have f: "(0::real) \<le> 1 / 2" "(1::real) / 2 \<le> 1" by simp_all
  have p: "\<forall>n. distinct (rev [0..<n]) \<and> set (rev [0..<n]) = {..<n}" by auto
  have n: "double_round (real (4::nat)) = Fin (real (4::nat))" by (rule double_round_nat) simp
  have t: "double_round (real (2::nat)) = Fin (real (2::nat))" by (rule double_round_nat) simp
  have h: "(1::real) / 2 * real (4::nat) = real (2::nat)" by simp
  have m: "double_mul (Fin (1 / 2)) (double_round (real (4::nat))) = Fin 2"
    by (simp only: n double_mul_def fl_mul.simps fl_round.simps h t) simp
  have c: "count_list [3, 1, 3, 3, 0, 3::int] 3 = 4" by simp
  have i: "py_int (double_mul (Fin (1 / 2)) (double_round (real (4::nat)))) = Inr 2"
    unfolding m by simp
  have b: "bincount [3, 1, 3, 3, 0, 3] = Inr [1, 1, 0, 4]"
    by (simp add: bincount_def upt_conv_Cons)
  have x: "py_index [1, 1, 0, 4::nat] 3 = Inr 4" by (simp add: py_index_def)
  have ch: "choice (where_eq [3, 1, 3, 3, 0, 3] 3) 2 (\<lambda>n. rev [0..<n]) = Inr [5, 3]"
    by (simp add: where_eq_def choice_def upt_conv_Cons)
  have e: "select_poisoned_indices [3, 1, 3, 3, 0, 3] 3 (Fin (1 / 2)) (\<lambda>n. rev [0..<n]) = Inr [5, 3]"
    by (simp only: select_poisoned_indices_def b bind_def sum.case x i Let_def ch)
  have s: "length [3, 1, 3, 3, 0, 3::int] < 2 ^ 53" by simp
  note r = select_poisoned_indices_sound [OF f p, THEN conjunct1, rule_format, OF e]
  note r1 = r [THEN conjunct1]
  note r2 = r [THEN conjunct2, THEN conjunct1]
  note r4 = r [THEN conjunct2, THEN conjunct2, THEN conjunct2, rule_format, OF s]
  have m2: "double_mul (Fin (1 / 2)) (double_round (real (count_list [3, 1, 3, 3, 0, 3::int] 3)))
              = Fin 2"
    unfolding c by (rule m)
  have l: "int (length [5, 3::nat]) = \<lfloor>2::real\<rfloor>" by simp
  show ?thesis
    by (intro conjI f p e r1 r2 m2 l s r4 [THEN conjunct1] r4 [THEN conjunct2])
qed

section \<open>Top-n accuracy on batches of identical shape\<close>

text \<open>
  Claim C4 says that \<open>top_n_categorical_accuracy(y, y_pred, n)\<close> fails for every
  \<open>n \<ge> 1\<close> when \<open>y\<close> and \<open>y_pred\<close> have the same shape. For \<open>n = 1\<close> the
  function hands over to \<open>categorical_accuracy\<close>, which compares two label vectors of
  the same shape entry by entry: the call below returns \<open>[1]\<close>.
\<close>

theorem top_n_same_shape_counterexample:
  "(1::int) \<ge> 1 \<and> shape (vec [1::real]) = shape (vec [1::real]) \<and>
   top_n_categorical_accuracy (vec [1]) (vec [1]) 1 = Inr [PyInt 1]"
  by (simp add: top_n_categorical_accuracy_def categorical_accuracy_def vec_def ndim_def
      np_eq_def int_list_def rows_def bind_def int_of_entry_def)

text \<open>
  Claim C4, amended: for every \<open>n \<ge> 2\<close> and every pair \<open>y\<close>, \<open>y_pred\<close> of identical
  shape, \<open>top_n_categorical_accuracy(y, y_pred, n)\<close> raises the \<open>ValueError\<close>
  "Must supply multiple predictions for top 5 accuracy".
\<close>

theorem top_n_same_shape:
  assumes "2 \<le> n" and "shape y = shape y_pred"
  shows "top_n_categorical_accuracy y y_pred n
           = Inl (ValueError ''Must supply multiple predictions for top 5 accuracy'')"
  using assms
  by (cases "shape y_pred")
     (auto simp: top_n_categorical_accuracy_def Let_def ndim_def expand_def len_def bind_def)

theorem top_n_same_shape_witness:
  "(2::int) \<le> 5 \<and> shape (vec [1, 0, 1::real]) = shape (vec [1, 1, 1::real]) \<and>
   top_n_categorical_accuracy (vec [1, 0, 1]) (vec [1, 1, 1]) 5
     = Inl (ValueError ''Must supply multiple predictions for top 5 accuracy'')"
proof -
  have s: "shape (vec [1, 0, 1::real]) = shape (vec [1, 1, 1::real])" by (simp add: vec_def)
  show ?thesis using s top_n_same_shape [OF _ s, of 5] by simp
qed

section \<open>Signal-to-noise ratio against a silent batch\<close>

text \<open>
  Claim C5 says that \<open>snr(x, x_adv)\<close> is \<open>0\<close> for every sample when \<open>x_adv\<close> is all
  zero. The noise is then \<open>x - 0 = x\<close>, so signal power and noise power coincide:
  for the sample \<open>[3, 4]\<close> both are \<open>12.5\<close> and the ratio is \<open>1\<close>, not \<open>0\<close>.
\<close>

theorem snr_zero_adv_counterexample:
  "wf_ndarray \<lparr>shape = [1, 2], data = [3, 4::real]\<rparr> \<and>
   snr np_mean \<lparr>shape = [1, 2], data = [3, 4]\<rparr> \<lparr>shape = [1, 2], data = [0, 0]\<rparr>
     = Inr [PyFloat (Fin 1)] \<and>
   PyFloat (Fin 1) \<noteq> PyFloat (Fin 0)"
proof -
  have d: "double_round 0 = Fin 0" "double_round 1 = Fin 1" "double_round 2 = Fin 2"
    "double_round 3 = Fin 3" "double_round 4 = Fin 4" "double_round 9 = Fin 9"
    "double_round 16 = Fin 16" "double_round 25 = Fin 25"
    using double_round_nat [of 0] double_round_nat [of 1] double_round_nat [of 2]
      double_round_nat [of 3] double_round_nat [of 4] double_round_nat [of 9]
      double_round_nat [of 16] double_round_nat [of 25] by simp_all
  have h: "double_round (25 / 2) = Fin (25 / 2)"
    by (rule trans [OF double_round_normal [where a = 3 and b = 0]])
      (simp_all add: round_even_def overflow_threshold_def)
  have s: "snr_sample np_mean \<lparr>shape = [2], data = [3, 4]\<rparr> \<lparr>shape = [2], data = [0, 0]\<rparr>
             = Inr (Fin 1)"
    by (simp add: snr_sample_def asarray_float_def ndim_def np_mean_def double_mul_def
        double_sub_def double_add_def double_div_def d h)
  show ?thesis
    by (simp add: wf_ndarray_def snr_def len_def rows_def bind_def s)
qed

text \<open>
  Claim C5, amended: for every batch \<open>x\<close> of rank-1 numeric samples and \<open>x_adv\<close> of the
  same shape with all entries zero, \<open>snr(x, x_adv)\<close> returns one number per sample:
  \<open>1\<close> for a sample whose float64 signal power, the mean of its squared entries, is
  finite and not zero, and NaN for every other sample (the quotient of two zero,
  infinite or undefined powers: a sample that is all zero or has no entries, and also
  a sample whose squares underflow to zero or overflow). This holds whatever order
  the mean adds the squares in.
\<close>

theorem snr_zero_adv:
  assumes "wf_ndarray x" and "shape x = [n, d]"
    and "shape x_adv = [n, d]" and "data x_adv = replicate (n * d) 0"
  shows "snr mean x x_adv =
           Inr (map (\<lambda>r. PyFloat
                       (if finite_nonzero (mean (map (\<lambda>v. double_mul v v) (map double_round r)))
                        then Fin 1 else NaN))
                  (chunks n d (data x)))"
proof -
  let ?cs = "chunks n d (data x)"
  let ?mk = "\<lambda>c::real list. \<lparr>shape = [d], data = c\<rparr>"
  let ?g = "\<lambda>r::real list.
    if finite_nonzero (mean (map (\<lambda>v. double_mul v v) (map double_round r))) then Fin 1 else NaN"
  let ?ps = "map (\<lambda>c. (?mk c, ?mk (replicate d 0))) ?cs"
  have len: "length (data x) = n * d" using assms(1,2) by (simp add: wf_ndarray_def)
  have rx: "rows x = Inr (map ?mk ?cs)" using assms(2) by (simp add: rows_def)
  have ra: "rows x_adv = Inr (replicate n (?mk (replicate d 0)))"
    using assms(3,4) by (simp add: rows_def chunks_replicate)
  have "zip (map ?mk ?cs) (replicate n (?mk (replicate d 0)))
              = map (\<lambda>c. (c, ?mk (replicate d 0))) (map ?mk ?cs)"
    by (rule zip_replicate_right) (simp add: length_chunks)
  then have zp: "zip (map ?mk ?cs) (replicate n (?mk (replicate d 0))) = ?ps"
    by (simp add: comp_def)
  have "traverse (\<lambda>(x_i, x_adv_i). snr_sample mean x_i x_adv_i) ?ps
            = Inr (map (\<lambda>p. ?g (data (fst p))) ?ps)"
  proof (rule traverse_map [where g = "\<lambda>p. ?g (data (fst p))"])
    fix p assume "p \<in> set ?ps"
    then obtain c where c: "c \<in> set ?cs" and p: "p = (?mk c, ?mk (replicate d 0))" by auto
    from len c have "length c = d" by (intro length_chunk [of n d "data x"]) simp_all
    then have "snr_sample mean (?mk c) (?mk (replicate d 0)) = Inr (?g c)"
      by (rule snr_sample_zero)
    then show "(case p of (x_i, x_adv_i) \<Rightarrow> snr_sample mean x_i x_adv_i)
                 = Inr (?g (data (fst p)))"
      unfolding p by simp
  qed
  then have tr: "traverse (\<lambda>(x_i, x_adv_i). snr_sample mean x_i x_adv_i) ?ps = Inr (map ?g ?cs)"
    by (simp add: comp_def)
  have "snr mean x x_adv = bind (traverse (\<lambda>(x_i, x_adv_i). snr_sample mean x_i x_adv_i) ?ps)
                        (\<lambda>rs. Inr (map PyFloat rs))"
    unfolding snr_def rx ra zp [symmetric]
    using assms(2,3) by (simp add: len_def bind_def)
  also have "\<dots> = Inr (map PyFloat (map ?g ?cs))"
    unfolding tr by (simp add: bind_def)
  finally show ?thesis by (simp add: comp_def if_distrib)
qed

theorem snr_zero_adv_witness:
  "wf_ndarray \<lparr>shape = [4, 2], data = [3, 4, 0, 0, 2 ^ 600, 0, 1 / 2 ^ 600, 0::real]\<rparr> \<and>
   snr np_mean \<lparr>shape = [4, 2], data = [3, 4, 0, 0, 2 ^ 600, 0, 1 / 2 ^ 600, 0]\<rparr>
               \<lparr>shape = [4, 2], data = [0, 0, 0, 0, 0, 0, 0, 0]\<rparr>
     = Inr [PyFloat (Fin 1), PyFloat NaN, PyFloat NaN, PyFloat NaN]"
proof -
  let ?x = "\<lparr>shape = [4, 2], data = [3, 4, 0, 0, 2 ^ 600, 0, 1 / 2 ^ 600, 0::real]\<rparr>"
  let ?a = "\<lparr>shape = [4, 2], data = [0, 0, 0, 0, 0, 0, 0, 0::real]\<rparr>"
  have w: "wf_ndarray ?x" by (simp add: wf_ndarray_def)
  have z: "data ?a = replicate (4 * 2) 0" by (simp add: numeral_eq_Suc)
  have c: "chunks 4 2 (data ?x) = [ [3, 4], [0, 0], [2 ^ 600, 0], [1 / 2 ^ 600, 0] ]"
    by (simp add: numeral_eq_Suc)
  have d: "double_round 0 = Fin 0" "double_round 1 = Fin 1" "double_round 2 = Fin 2"
    "double_round 3 = Fin 3" "double_round 4 = Fin 4" "double_round 9 = Fin 9"
    "double_round 16 = Fin 16" "double_round 25 = Fin 25"
    using double_round_nat [of 0] double_round_nat [of 1] double_round_nat [of 2]
      double_round_nat [of 3] double_round_nat [of 4] double_round_nat [of 9]
      double_round_nat [of 16] double_round_nat [of 25] by simp_all
  have h: "double_round (25 / 2) = Fin (25 / 2)"
    by (rule trans [OF double_round_normal [where a = 3 and b = 0]])
      (simp_all add: round_even_def overflow_threshold_def)
  have b: "double_round (2 ^ 600) = Fin (2 ^ 600)"
    by (rule trans [OF double_round_normal [where a = 600 and b = 0]])
      (simp_all add: round_even_def overflow_threshold_def)
  have bb: "double_round (2 ^ 600 * 2 ^ 600) = PosInf"
    by (rule trans [OF double_round_normal [where a = 1200 and b = 0]])
      (simp_all add: round_even_def overflow_threshold_def)
  have s: "double_round (1 / 2 ^ 600) = Fin (1 / 2 ^ 600)"
    by (rule trans [OF double_round_normal [where a = 0 and b = 600]])
      (simp_all add: round_even_def overflow_threshold_def)
  have ss: "double_round (1 / 2 ^ 600 * (1 / 2 ^ 600)) = Fin 0"
    by (rule trans [OF double_round_subnormal])
      (simp_all add: round_even_def overflow_threshold_def)
  have m1: "np_mean [double_mul (double_round 3) (double_round 3),
                      double_mul (double_round 4) (double_round 4)] = Fin (25 / 2)"
    by (simp add: np_mean_def double_mul_def double_add_def double_div_def d h)
  have m2: "np_mean [double_mul (double_round 0) (double_round 0),
                      double_mul (double_round 0) (double_round 0)] = Fin 0"
    by (simp add: np_mean_def double_mul_def double_add_def double_div_def d)
  have m3: "np_mean [double_mul (double_round (2 ^ 600)) (double_round (2 ^ 600)),
                      double_mul (double_round 0) (double_round 0)] = PosInf"
    by (simp only: b d double_mul_def fl_mul.simps fl_round.simps bb)
      (simp add: np_mean_def double_add_def double_div_def d)
  have m4: "np_mean [double_mul (double_round (1 / 2 ^ 600)) (double_round (1 / 2 ^ 600)),
                      double_mul (double_round 0) (double_round 0)] = Fin 0"
    by (simp only: s d double_mul_def fl_mul.simps fl_round.simps ss)
      (simp add: np_mean_def double_add_def double_div_def d)
  have "snr np_mean ?x ?a =
          Inr (map (\<lambda>r. PyFloat
                      (if finite_nonzero (np_mean (map (\<lambda>v. double_mul v v) (map double_round r)))
                       then Fin 1 else NaN))
                 (chunks 4 2 (data ?x)))"
    using w _ _ z by (rule snr_zero_adv) simp_all
  also have "\<dots> = Inr [PyFloat (Fin 1), PyFloat NaN, PyFloat NaN, PyFloat NaN]"
    by (simp only: c list.map m1 m2 m3 m4) simp
  finally show ?thesis using w by simp
qed

section \<open>Results of a logger after updates\<close>

text \<open>
  Claim C6 says that after the single call \<open>update_task([1,0,1],[1,1,1])\<close> on
  \<open>MetricsLogger(task="categorical_accuracy", means=True)\<close> the mapping returned by
  \<open>results()\<close> holds \<open>2/3\<close> under \<open>benign_mean_categorical_accuracy\<close>. The
  constructor also creates the adversarial list for the same metric; it is still empty,
  so \<open>results()\<close> raises \<open>ZeroDivisionError\<close> for it and returns no mapping.
\<close>

theorem results_single_update_counterexample:
  "MetricsLogger_init (OneName ''categorical_accuracy'') NoNames True False None None
     = Inr \<lparr>tasks = [\<lparr>metric_name = ''categorical_accuracy'', metric_function = categorical_accuracy,
           metric_values = []\<rparr>],
        adversarial_tasks = [\<lparr>metric_name = ''categorical_accuracy'', metric_function = categorical_accuracy,
           metric_values = []\<rparr>],
        perturbations = [], means = True, full = False, computational_resource_dict = []\<rparr> \<and>
   update_task \<lparr>tasks = [\<lparr>metric_name = ''categorical_accuracy'', metric_function = categorical_accuracy,
           metric_values = []\<rparr>],
        adversarial_tasks = [\<lparr>metric_name = ''categorical_accuracy'', metric_function = categorical_accuracy,
           metric_values = []\<rparr>],
        perturbations = [], means = True, full = False, computational_resource_dict = []\<rparr> (vec [1, 0, 1]) (vec [1, 1, 1]) False
     = (\<lparr>tasks = [\<lparr>metric_name = ''categorical_accuracy'', metric_function = categorical_accuracy,
           metric_values = [PyInt 1, PyInt 0, PyInt 1]\<rparr>],
        adversarial_tasks = [\<lparr>metric_name = ''categorical_accuracy'', metric_function = categorical_accuracy,
           metric_values = []\<rparr>],
        perturbations = [], means = True, full = False, computational_resource_dict = []\<rparr>, None) \<and>
   results \<lparr>tasks = [\<lparr>metric_name = ''categorical_accuracy'', metric_function = categorical_accuracy,
           metric_values = [PyInt 1, PyInt 0, PyInt 1]\<rparr>],
        adversarial_tasks = [\<lparr>metric_name = ''categorical_accuracy'', metric_function = categorical_accuracy,
           metric_values = []\<rparr>],
        perturbations = [], means = True, full = False, computational_resource_dict = []\<rparr>
     = Inl (ZeroDivisionError ''No values to calculate mean in adversarial_categorical_accuracy'')"
proof -
  let ?lg0 = "\<lparr>tasks = [\<lparr>metric_name = ''categorical_accuracy'', metric_function = categorical_accuracy,
           metric_values = []\<rparr>],
        adversarial_tasks = [\<lparr>metric_name = ''categorical_accuracy'', metric_function = categorical_accuracy,
           metric_values = []\<rparr>],
        perturbations = [], means = True, full = False, computational_resource_dict = []\<rparr>"
  let ?lg1 = "\<lparr>tasks = [\<lparr>metric_name = ''categorical_accuracy'', metric_function = categorical_accuracy,
           metric_values = [PyInt 1, PyInt 0, PyInt 1]\<rparr>],
        adversarial_tasks = [\<lparr>metric_name = ''categorical_accuracy'', metric_function = categorical_accuracy,
           metric_values = []\<rparr>],
        perturbations = [], means = True, full = False, computational_resource_dict = []\<rparr>"
  have i: "MetricsLogger_init (OneName ''categorical_accuracy'') NoNames True False None None = Inr ?lg0"
    by (simp add: MetricsLogger_init_def generate_counters_def MetricList_init_def
        SUPPORTED_METRICS_def bind_def)
  have u: "update_task ?lg0 (vec [1, 0, 1]) (vec [1, 1, 1]) False = (?lg1, None)"
    by (simp add: update_task_def MetricList_append_def bind_def ca_101)
  have r: "results ?lg1
     = Inl (ZeroDivisionError ''No values to calculate mean in adversarial_categorical_accuracy'')"
    by (simp add: results_def results_metrics_def results_metric_def MetricList_mean_def
        bind_def py_truediv_def)
  show ?thesis using i u r by simp
qed

text \<open>
  Claim C6, amended: once the adversarial list has received at least one score as well
  (a call \<open>update_task(y2, y_pred2, adversarial=True)\<close> that returns a non-empty list of
  scores), \<open>results()\<close> returns a mapping that holds exactly \<open>2/3\<close> under
  \<open>benign_mean_categorical_accuracy\<close>.
\<close>

theorem results_after_both_updates:
  assumes "categorical_accuracy y2 y_pred2 = Inr vs" and "vs \<noteq> []"
  shows "\<exists>lg0 lg1 lg2 r.
           MetricsLogger_init (OneName ''categorical_accuracy'') NoNames True False None None = Inr lg0 \<and>
           update_task lg0 (vec [1, 0, 1]) (vec [1, 1, 1]) False = (lg1, None) \<and>
           update_task lg1 y2 y_pred2 True = (lg2, None) \<and>
           results lg2 = Inr r \<and>
           map_of r ''benign_mean_categorical_accuracy'' = Some (PyFloat (Fin (2 / 3)))"
proof -
  let ?c0 = "\<lparr>metric_name = ''categorical_accuracy'', metric_function = categorical_accuracy,
              metric_values = []\<rparr>"
  let ?c1 = "\<lparr>metric_name = ''categorical_accuracy'', metric_function = categorical_accuracy,
              metric_values = [PyInt 1, PyInt 0, PyInt 1]\<rparr>"
  let ?c2 = "\<lparr>metric_name = ''categorical_accuracy'', metric_function = categorical_accuracy,
              metric_values = vs\<rparr>"
  let ?lg0 = "\<lparr>tasks = [?c0], adversarial_tasks = [?c0], perturbations = [], means = True,
               full = False, computational_resource_dict = []\<rparr>"
  let ?lg1 = "\<lparr>tasks = [?c1], adversarial_tasks = [?c0], perturbations = [], means = True,
               full = False, computational_resource_dict = []\<rparr>"
  let ?lg2 = "\<lparr>tasks = [?c1], adversarial_tasks = [?c2], perturbations = [], means = True,
               full = False, computational_resource_dict = []\<rparr>"
  have i: "MetricsLogger_init (OneName ''categorical_accuracy'') NoNames True False None None = Inr ?lg0"
    by (simp add: MetricsLogger_init_def generate_counters_def MetricList_init_def
        SUPPORTED_METRICS_def bind_def)
  have u1: "update_task ?lg0 (vec [1, 0, 1]) (vec [1, 1, 1]) False = (?lg1, None)"
    by (simp add: update_task_def MetricList_append_def bind_def ca_101)
  have u2: "update_task ?lg1 y2 y_pred2 True = (?lg2, None)"
    by (simp add: update_task_def MetricList_append_def bind_def assms(1))
  have m1: "MetricList_mean ?c1 = Inr (Fin (2 / 3))"
    by (simp add: MetricList_mean_def bind_def py_truediv_def)
  from categorical_accuracy_PyInt [OF assms(1)] assms(2)
  obtain f where m2: "MetricList_mean ?c2 = Inr f"
    using mean_PyInt [of vs ?c2] by auto
  have r: "results ?lg2 = Inr [(''benign_mean_categorical_accuracy'', PyFloat (Fin (2 / 3))),
                              (''adversarial_mean_categorical_accuracy'', PyFloat f)]"
    by (simp add: results_def results_metrics_def results_metric_def bind_def m1 m2)
  have "map_of [(''benign_mean_categorical_accuracy'', PyFloat (Fin (2 / 3))),
                (''adversarial_mean_categorical_accuracy'', PyFloat f)]
          ''benign_mean_categorical_accuracy'' = Some (PyFloat (Fin (2 / 3)))" by simp
  with i u1 u2 r show ?thesis by blast
qed

theorem results_after_both_updates_witness:
  "categorical_accuracy (vec [1, 0, 1]) (vec [1, 1, 1]) = Inr [PyInt 1, PyInt 0, PyInt 1] \<and>
   (\<exists>lg0 lg1 lg2 r.
           MetricsLogger_init (OneName ''categorical_accuracy'') NoNames True False None None = Inr lg0 \<and>
           update_task lg0 (vec [1, 0, 1]) (vec [1, 1, 1]) False = (lg1, None) \<and>
           update_task lg1 (vec [1, 0, 1]) (vec [1, 1, 1]) True = (lg2, None) \<and>
           results lg2 = Inr r \<and>
           map_of r ''benign_mean_categorical_accuracy'' = Some (PyFloat (Fin (2 / 3))))"
  using ca_101 results_after_both_updates [OF ca_101] by simp

section \<open>The mean of an empty metric list\<close>

text \<open>
  Claim C7: \<open>MetricList.mean()\<close> raises \<open>ZeroDivisionError\<close> whenever the list holds no
  score: on a list just constructed, on any list right after \<open>clear()\<close>, whatever it
  held before, and in general when \<open>_values\<close> is empty. It returns neither \<open>0\<close> nor
  NaN there.
\<close>

theorem MetricList_mean_empty:
  "(MetricList_init name f = Inr m \<longrightarrow>
      MetricList_mean m = Inl (ZeroDivisionError ''division by zero'')) \<and>
   MetricList_mean (MetricList_clear m2) = Inl (ZeroDivisionError ''division by zero'') \<and>
   (metric_values m3 = [] \<longrightarrow>
      MetricList_mean m3 = Inl (ZeroDivisionError ''division by zero'') \<and>
      MetricList_mean m3 \<noteq> Inr (Fin 0) \<and> MetricList_mean m3 \<noteq> Inr NaN)"
  using init_values mean_nil by (auto simp: MetricList_clear_def)

theorem MetricList_mean_empty_witness:
  "MetricList_init ''categorical_accuracy'' FNone
     = Inr \<lparr>metric_name = ''categorical_accuracy'', metric_function = categorical_accuracy,
            metric_values = []\<rparr> \<and>
   MetricList_mean \<lparr>metric_name = ''categorical_accuracy'',
      metric_function = categorical_accuracy, metric_values = []\<rparr>
     = Inl (ZeroDivisionError ''division by zero'') \<and>
   MetricList_mean \<lparr>metric_name = ''categorical_accuracy'',
      metric_function = categorical_accuracy, metric_values = [PyInt 1, PyInt 0]\<rparr>
     = Inr (Fin (1 / 2)) \<and>
   MetricList_mean (MetricList_clear \<lparr>metric_name = ''categorical_accuracy'',
      metric_function = categorical_accuracy, metric_values = [PyInt 1, PyInt 0]\<rparr>)
     = Inl (ZeroDivisionError ''division by zero'')"
proof -
  let ?m = "\<lparr>metric_name = ''categorical_accuracy'', metric_function = categorical_accuracy,
             metric_values = []\<rparr>"
  let ?m2 = "\<lparr>metric_name = ''categorical_accuracy'', metric_function = categorical_accuracy,
             metric_values = [PyInt 1, PyInt 0]\<rparr>"
  have i: "MetricList_init ''categorical_accuracy'' FNone = Inr ?m"
    by (simp add: MetricList_init_def SUPPORTED_METRICS_def)
  have v: "MetricList_mean ?m2 = Inr (Fin (1 / 2))"
    by (simp add: MetricList_mean_def bind_def py_truediv_def)
  show ?thesis
    using i v MetricList_mean_empty [of "''categorical_accuracy''" FNone ?m ?m2 ?m] by simp
qed

section \<open>The result mapping without poisoning\<close>

text \<open>
  Claim C8: when \<open>poison_dataset_flag\<close> is false and the attack type is not
  \<open>preloaded\<close>, the mapping returned by the evaluation has the two keys
  \<open>validation_accuracy\<close> and \<open>validation_accuracy_targeted_class\<close> and no other; the
  keys \<open>test_accuracy\<close> and \<open>targeted_misclassification_accuracy\<close> are absent. The
  mapping is returned whenever the loop over the clean test data ends and its two
  metric lists have a mean.
\<close>

theorem evaluate_scores_clean_only:
  assumes "\<not> poison_dataset_flag" and "attack_type \<noteq> Some ''preloaded''"
  shows "(\<forall>r. evaluate_scores predict attack src_class tgt_class attack_type poison_dataset_flag
                 test_data test_data_poison = Inr r \<longrightarrow>
            map fst r = [''validation_accuracy'', ''validation_accuracy_targeted_class''] \<and>
            map_of r ''test_accuracy'' = None \<and>
            map_of r ''targeted_misclassification_accuracy'' = None) \<and>
         (\<forall>vm tm va vt.
            validation_loop predict src_class test_data = Inr (vm, tm) \<longrightarrow>
            MetricList_mean vm = Inr va \<longrightarrow> MetricList_mean tm = Inr vt \<longrightarrow>
            evaluate_scores predict attack src_class tgt_class attack_type poison_dataset_flag
                 test_data test_data_poison
              = Inr [(''validation_accuracy'', PyFloat va),
                     (''validation_accuracy_targeted_class'', PyFloat vt)])"
  using assms
  by (auto simp: evaluate_scores_def poisoned_loops_clean bind_def split: sum.splits)

theorem evaluate_scores_clean_only_witness:
  "Some ''backdoor'' \<noteq> Some ''preloaded'' \<and>
   evaluate_scores (\<lambda>x. vec (replicate (length x) 3)) (\<lambda>img t. (img, t)) 3 9
      (Some ''backdoor'') False [([ [ [ [1::nat] ] ], [ [ [2] ] ] ], [3, 1])] []
     = Inr [(''validation_accuracy'', PyFloat (Fin (1 / 2))),
            (''validation_accuracy_targeted_class'', PyFloat (Fin 1))] \<and>
   map fst [(''validation_accuracy'', PyFloat (Fin (1 / 2))),
            (''validation_accuracy_targeted_class'', PyFloat (Fin 1))]
     = [''validation_accuracy'', ''validation_accuracy_targeted_class'']"
proof -
  let ?predict = "\<lambda>x::nat image list. vec (replicate (length x) (3::real))"
  let ?attack = "\<lambda>(img::nat image) (t::int). (img, t)"
  let ?r = "[(''validation_accuracy'', PyFloat (Fin (1 / 2))),
             (''validation_accuracy_targeted_class'', PyFloat (Fin 1))]"
  have a: "Some ''backdoor'' \<noteq> Some ''preloaded''" by simp
  have e: "evaluate_scores ?predict ?attack 3 9 (Some ''backdoor'') False
             [([ [ [ [1::nat] ] ], [ [ [2] ] ] ], [3, 1])] [] = Inr ?r"
    by (simp add: evaluate_scores_def validation_loop_def validation_step_def poisoned_loops_def
        init_categorical_accuracy bind_def MetricList_append_def MetricList_mean_def
        categorical_accuracy_def labels_array_def vec_def ndim_def np_eq_def int_list_def rows_def
        int_of_entry_def mask_rows_def len_def py_truediv_def)
  from evaluate_scores_clean_only [where predict = ?predict and attack = ?attack
      and src_class = 3 and tgt_class = 9 and test_data = "[([ [ [ [1::nat] ] ], [ [ [2] ] ] ], [3, 1])]"
      and test_data_poison = "[]" and poison_dataset_flag = False, OF _ a] e
  have "map fst ?r = [''validation_accuracy'', ''validation_accuracy_targeted_class'']"
    by blast
  with a e show ?thesis by simp
qed

section \<open>The distance of a batch to itself\<close>

text \<open>
  Claim C9: for every non-empty batch \<open>x\<close> of numeric samples, \<open>l2(x, x)\<close> returns a
  list with one entry per sample, and every entry is \<open>0\<close>.
\<close>

theorem l2_self_zero:
  assumes "wf_ndarray x" and "shape x = n # s" and "0 < n"
  shows "l2 x x = Inr (replicate n (PyFloat (Fin 0)))"
proof -
  let ?z = "replicate (length (data x)) (0::real)"
  have len: "length (data x) = n * prod_list s"
    using assms(1,2) by (simp add: wf_ndarray_def)
  have sub: "np_sub x x = Inr \<lparr>shape = shape x, data = ?z\<rparr>"
    by (simp add: np_sub_def map2_sub_self)
  have norms: "traverse (vector_norm (Ord 2)) (chunks n (length ?z div n) ?z)
                 = Inr (map (\<lambda>c. 0) (chunks n (length ?z div n) ?z))"
  proof (rule traverse_map)
    fix c assume "c \<in> set (chunks n (length ?z div n) ?z)"
    then have "set c \<subseteq> set ?z" by (rule set_chunks)
    then have "set c \<subseteq> {0}" by auto
    then show "vector_norm (Ord 2) c = Inr 0" by (rule vector_norm_2_zero)
  qed
  have "map (\<lambda>c. 0::real) (chunks n (length ?z div n) ?z) = replicate n 0"
    by (simp add: map_replicate_const length_chunks)
  with norms have norms': "traverse (vector_norm (Ord 2)) (chunks n (length ?z div n) ?z)
                 = Inr (replicate n 0)" by simp
  have m: "length ?z mod n = 0" using len by simp
  show ?thesis
    unfolding l2_def norm_batch_def sub bind_def
    using assms(2,3) m norms' by simp
qed

theorem l2_self_zero_witness:
  "wf_ndarray \<lparr>shape = [2, 2], data = [1, 2, 3, 4::real]\<rparr> \<and>
   l2 \<lparr>shape = [2, 2], data = [1, 2, 3, 4]\<rparr> \<lparr>shape = [2, 2], data = [1, 2, 3, 4]\<rparr>
     = Inr [PyFloat (Fin 0), PyFloat (Fin 0)]"
proof -
  have w: "wf_ndarray \<lparr>shape = [2, 2], data = [1, 2, 3, 4::real]\<rparr>"
    by (simp add: wf_ndarray_def)
  have s: "shape \<lparr>shape = [2, 2], data = [1, 2, 3, 4::real]\<rparr> = 2 # [2]" by simp
  show ?thesis
    using w l2_self_zero [OF w s] by (simp add: numeral_2_eq_2)
qed

section \<open>The ledger of a new logger\<close>

text \<open>
  Claim C10: whatever is passed as \<open>computational_resource_dict\<close> to the constructor
  of \<open>MetricsLogger\<close>, the logger starts with an empty ledger of its own, and
  \<open>results()\<close> on it adds no ledger entry to what the metric groups give: it is the
  outcome of the first loop alone.
\<close>

theorem fresh_logger_ledger_empty:
  "MetricsLogger_init task perturbation m f profiler_type crd
     = MetricsLogger_init task perturbation m f profiler_type crd' \<and>
   (MetricsLogger_init task perturbation m f profiler_type crd = Inr lg \<longrightarrow>
      computational_resource_dict lg = [] \<and> results lg = results_metrics lg)"
proof -
  have a: "MetricsLogger_init task perturbation m f profiler_type crd
     = MetricsLogger_init task perturbation m f profiler_type crd'"
    by (simp add: MetricsLogger_init_def)
  have b: "computational_resource_dict lg = []"
    if "MetricsLogger_init task perturbation m f profiler_type crd = Inr lg"
    using that by (auto simp: MetricsLogger_init_def bind_def split: sum.splits)
  have c: "results lg = results_metrics lg" if "computational_resource_dict lg = []"
    using that by (cases "results_metrics lg") (simp_all add: results_def bind_def)
  from a b c show ?thesis by blast
qed

theorem fresh_logger_ledger_empty_witness:
  "MetricsLogger_init (OneName ''l2'') NoNames True True (Some ''Basic'')
      (Some [(''fit'', [(''execution_count'', PyInt 3), (''total_time'', PyFloat (Fin 2))])])
     = Inr \<lparr>tasks = [\<lparr>metric_name = ''l2'', metric_function = l2, metric_values = []\<rparr>],
            adversarial_tasks = [\<lparr>metric_name = ''l2'', metric_function = l2, metric_values = []\<rparr>],
            perturbations = [], means = True, full = True, computational_resource_dict = []\<rparr> \<and>
   results \<lparr>tasks = [\<lparr>metric_name = ''l2'', metric_function = l2, metric_values = []\<rparr>],
            adversarial_tasks = [\<lparr>metric_name = ''l2'', metric_function = l2, metric_values = []\<rparr>],
            perturbations = [], means = True, full = True, computational_resource_dict = []\<rparr>
     = results_metrics \<lparr>tasks = [\<lparr>metric_name = ''l2'', metric_function = l2, metric_values = []\<rparr>],
            adversarial_tasks = [\<lparr>metric_name = ''l2'', metric_function = l2, metric_values = []\<rparr>],
            perturbations = [], means = True, full = True, computational_resource_dict = []\<rparr>"
proof -
  let ?lg = "\<lparr>tasks = [\<lparr>metric_name = ''l2'', metric_function = l2, metric_values = []\<rparr>],
            adversarial_tasks = [\<lparr>metric_name = ''l2'', metric_function = l2, metric_values = []\<rparr>],
            perturbations = [], means = True, full = True, computational_resource_dict = []\<rparr>"
  let ?crd = "Some [(''fit'', [(''execution_count'', PyInt 3), (''total_time'', PyFloat (Fin 2))])]"
  have i: "MetricsLogger_init (OneName ''l2'') NoNames True True (Some ''Basic'') ?crd = Inr ?lg"
    by (simp add: MetricsLogger_init_def generate_counters_def MetricList_init_def
        SUPPORTED_METRICS_def bind_def)
  show ?thesis
    using i fresh_logger_ledger_empty [of "OneName ''l2''" NoNames True True "Some ''Basic''" ?crd ?lg]
    by simp
qed

end
